theory Spec2Isabelle
  imports Complex_Main "HOL-Library.Multiset"
begin

section \<open>Values\<close>

text \<open>
  The server is one file, \<^verbatim>\<open>server.js\<close>: an Express route table over two stores, the
  arrays \<^verbatim>\<open>inMemoryProducts\<close> / \<^verbatim>\<open>inMemoryTransactions\<close> and the Mongoose models
  \<^verbatim>\<open>Product\<close> / \<^verbatim>\<open>Transaction\<close>, chosen per request by the flag \<^verbatim>\<open>useInMemory\<close>.

  A JavaScript number is an IEEE-754 double. A double other than \<^verbatim>\<open>NaN\<close> is modelled by
  its value: a rational number, or one of the two infinities. The two zeros are one value:
  the server applies \<^verbatim>\<open>+\<close>, \<^verbatim>\<open>-\<close>, \<^verbatim>\<open>*\<close>, \<^verbatim>\<open>=== 0\<close> and \<^verbatim>\<open><=\<close> to numbers and
  serialises them as JSON, and none of these tells \<^verbatim>\<open>-0\<close> from \<^verbatim>\<open>0\<close>. The values
  of doubles are some of the rational numbers; every operator rounds its exact result to
  one of them, and what is proved of all rational values holds of the doubles.
\<close>

type_synonym time = int

datatype double = Finite rat | PosInf | NegInf

text \<open>
  A numeric field of an object: \<open>None\<close> stands for a value that is not a number, which
  is \<^verbatim>\<open>undefined\<close> (the field is absent) or \<^verbatim>\<open>NaN\<close>. The two behave alike under every
  operator the server applies to them: the arithmetic gives \<^verbatim>\<open>NaN\<close>, and \<^verbatim>\<open>=== 0\<close> and
  \<^verbatim>\<open><=\<close> are false. A payload field is either absent or carries a value of the type the
  schema names for it; a number of a payload is the double \<^verbatim>\<open>JSON.parse\<close> read.
\<close>

type_synonym jsnum = "double option"

abbreviation number :: "rat \<Rightarrow> jsnum" where
  "number r \<equiv> Some (Finite r)"

subsection \<open>Rounding to the nearest double\<close>

definition pow2 :: "int \<Rightarrow> rat" where
  "pow2 e = (if 0 \<le> e then 2 ^ nat e else 1 / 2 ^ nat (- e))"

text \<open>
  The exponent of the unit in the last place of a magnitude \<open>x\<close>: the least \<open>e\<close> from
  \<open>-1074\<close> (the subnormal numbers) with \<open>x < 2 ^ (e + 53)\<close>, and at most \<open>971\<close> (the largest
  binade). The search starts at \<open>-1074\<close>.
\<close>

function ulp_exponent :: "rat \<Rightarrow> int \<Rightarrow> int" where
  "ulp_exponent x e =
     (if 971 \<le> e then 971 else if x < pow2 (e + 53) then e else ulp_exponent x (e + 1))"
  by pat_completeness auto
termination
  by (relation "measure (\<lambda>(x, e). nat (971 - e))") auto

declare ulp_exponent.simps [simp del]

text \<open>The nearest integer, a tie going to the even one.\<close>

definition round_half_even :: "rat \<Rightarrow> int" where
  "round_half_even r =
     (if r - of_int \<lfloor>r\<rfloor> < 1 / 2 then \<lfloor>r\<rfloor>
      else if 1 / 2 < r - of_int \<lfloor>r\<rfloor> then \<lfloor>r\<rfloor> + 1
      else if even \<lfloor>r\<rfloor> then \<lfloor>r\<rfloor> else \<lfloor>r\<rfloor> + 1)"

text \<open>
  The double nearest to an exact result (round to nearest, ties to even): the
  magnitude is rounded to a multiple of its unit in the last place, and a result of
  \<open>2 ^ 1024\<close> or more is infinite.
\<close>

definition round_double :: "rat \<Rightarrow> double" where
  "round_double x =
     (let e = ulp_exponent \<bar>x\<bar> (- 1074);
          m = round_half_even (\<bar>x\<bar> / pow2 e)
      in if e = 971 \<and> 2 ^ 53 \<le> m then (if x < 0 then NegInf else PosInf)
         else Finite (sgn x * of_int m * pow2 e))"

subsection \<open>The operators\<close>

definition negate :: "double \<Rightarrow> double" where
  "negate a = (case a of Finite x \<Rightarrow> Finite (- x) | PosInf \<Rightarrow> NegInf | NegInf \<Rightarrow> PosInf)"

text \<open>\<^verbatim>\<open>a + b\<close>: the two infinities of opposite sign add up to \<^verbatim>\<open>NaN\<close>.\<close>

definition add_double :: "double \<Rightarrow> double \<Rightarrow> jsnum" where
  "add_double a b =
     (case a of
        Finite x \<Rightarrow> (case b of Finite y \<Rightarrow> Some (round_double (x + y)) | _ \<Rightarrow> Some b)
      | PosInf \<Rightarrow> (case b of NegInf \<Rightarrow> None | _ \<Rightarrow> Some PosInf)
      | NegInf \<Rightarrow> (case b of PosInf \<Rightarrow> None | _ \<Rightarrow> Some NegInf))"

text \<open>\<^verbatim>\<open>a * b\<close>: zero times an infinity is \<^verbatim>\<open>NaN\<close>.\<close>

definition signed_infinity :: "bool \<Rightarrow> double" where
  "signed_infinity negative = (if negative then NegInf else PosInf)"

definition mul_double :: "double \<Rightarrow> double \<Rightarrow> jsnum" where
  "mul_double a b =
     (case a of
        Finite x \<Rightarrow>
          (case b of
             Finite y \<Rightarrow> Some (round_double (x * y))
           | PosInf \<Rightarrow> if x = 0 then None else Some (signed_infinity (x < 0))
           | NegInf \<Rightarrow> if x = 0 then None else Some (signed_infinity (0 < x)))
      | PosInf \<Rightarrow>
          (case b of
             Finite y \<Rightarrow> if y = 0 then None else Some (signed_infinity (y < 0))
           | PosInf \<Rightarrow> Some PosInf
           | NegInf \<Rightarrow> Some NegInf)
      | NegInf \<Rightarrow>
          (case b of
             Finite y \<Rightarrow> if y = 0 then None else Some (signed_infinity (0 < y))
           | PosInf \<Rightarrow> Some NegInf
           | NegInf \<Rightarrow> Some PosInf))"

definition le_double :: "double \<Rightarrow> double \<Rightarrow> bool" where
  "le_double a b =
     (case a of
        Finite x \<Rightarrow> (case b of Finite y \<Rightarrow> x \<le> y | PosInf \<Rightarrow> True | NegInf \<Rightarrow> False)
      | PosInf \<Rightarrow> (case b of PosInf \<Rightarrow> True | _ \<Rightarrow> False)
      | NegInf \<Rightarrow> True)"

definition js_add :: "jsnum \<Rightarrow> jsnum \<Rightarrow> jsnum" where
  "js_add a b = (case a of None \<Rightarrow> None | Some x \<Rightarrow> (case b of None \<Rightarrow> None | Some y \<Rightarrow> add_double x y))"

definition js_sub :: "jsnum \<Rightarrow> jsnum \<Rightarrow> jsnum" where
  "js_sub a b =
     (case a of None \<Rightarrow> None
      | Some x \<Rightarrow> (case b of None \<Rightarrow> None | Some y \<Rightarrow> add_double x (negate y)))"

definition js_mul :: "jsnum \<Rightarrow> jsnum \<Rightarrow> jsnum" where
  "js_mul a b = (case a of None \<Rightarrow> None | Some x \<Rightarrow> (case b of None \<Rightarrow> None | Some y \<Rightarrow> mul_double x y))"

definition js_le :: "jsnum \<Rightarrow> jsnum \<Rightarrow> bool" where
  "js_le a b = (case a of None \<Rightarrow> False | Some x \<Rightarrow> (case b of None \<Rightarrow> False | Some y \<Rightarrow> le_double x y))"

text \<open>\<^verbatim>\<open>String(n)\<close> for a counter \<open>n\<close>: its decimal digits.\<close>

definition digit :: "nat \<Rightarrow> char" where
  "digit d =
     (if d = 0 then CHR ''0'' else if d = 1 then CHR ''1'' else if d = 2 then CHR ''2''
      else if d = 3 then CHR ''3'' else if d = 4 then CHR ''4'' else if d = 5 then CHR ''5''
      else if d = 6 then CHR ''6'' else if d = 7 then CHR ''7'' else if d = 8 then CHR ''8''
      else CHR ''9'')"

function String_of :: "nat \<Rightarrow> string" where
  "String_of n = (if n < 10 then [digit n] else String_of (n div 10) @ [digit (n mod 10)])"
  by pat_completeness auto
termination
  by (relation "measure id") auto

declare String_of.simps [simp del]

section \<open>Data model\<close>

text \<open>
  A product, as an object of \<^verbatim>\<open>inMemoryProducts\<close> or a document of the \<^verbatim>\<open>Product\<close>
  model (\<^verbatim>\<open>productSchema\<close>). \<open>pid\<close> is the field \<^verbatim>\<open>_id\<close>.
\<close>

record product =
  pid :: string
  name :: "string option"
  sku :: "string option"
  category :: "string option"
  quantity :: jsnum
  reorderPoint :: jsnum
  unitPrice :: jsnum
  location :: "string option"
  supplier :: "string option"
  lastRestocked :: "time option"
  status :: "string option"
  createdAt :: time
  updatedAt :: time

text \<open>A stock movement (\<^verbatim>\<open>transactionSchema\<close>); \<open>t_type\<close> is the field \<^verbatim>\<open>type\<close>.\<close>

record transaction =
  t_id :: string
  t_productId :: "string option"
  t_type :: "string option"
  t_quantity :: jsnum
  t_notes :: string
  t_performedBy :: string
  t_createdAt :: time

text \<open>
  \<^verbatim>\<open>req.body\<close> of the product routes: every field may be absent. \<open>b_id\<close> is a field
  \<^verbatim>\<open>_id\<close> of the payload, which the object spreads of the in-memory branches let through.
  Fields beyond the schema's are not modelled.
\<close>

record product_body =
  b_id :: "string option"
  b_name :: "string option"
  b_sku :: "string option"
  b_category :: "string option"
  b_quantity :: jsnum
  b_reorderPoint :: jsnum
  b_unitPrice :: jsnum
  b_location :: "string option"
  b_supplier :: "string option"
  b_lastRestocked :: "time option"
  b_status :: "string option"

text \<open>\<^verbatim>\<open>req.body\<close> of \<^verbatim>\<open>POST /api/transactions\<close>.\<close>

record transaction_body =
  r_productId :: "string option"
  r_type :: "string option"
  r_quantity :: jsnum
  r_notes :: "string option"
  r_performedBy :: "string option"

text \<open>
  What a handler catches. The database calls are Mongoose's; what they throw is given by
  the environment of the request, except for the checks the two schemas declare
  (\<^verbatim>\<open>required\<close>, \<^verbatim>\<open>enum\<close>), which are computed. \<open>ValidationError\<close> lists the paths that
  failed; the value stands for \<^verbatim>\<open>error.message\<close> in a response.
\<close>

datatype exn = ValidationError "string list" | CastError string | BackendError string

text \<open>
  The environment of one request: the clock (\<^verbatim>\<open>new Date()\<close>, \<^verbatim>\<open>Date.now\<close>, read once per
  request), the identifiers the database layer generates, and, for the \<open>k\<close>-th database
  call of the handler, the exception it throws, if any.
\<close>

record env =
  now :: time
  new_id :: "nat \<Rightarrow> string"
  fault :: "nat \<Rightarrow> exn option"

text \<open>The module's variables, and the two collections of the database.\<close>

record state =
  useInMemory :: bool
  inMemoryProducts :: "product list"
  inMemoryTransactions :: "transaction list"
  productIdCounter :: nat
  transactionIdCounter :: nat
  dbProducts :: "product list"
  dbTransactions :: "transaction list"

section \<open>Status derivation\<close>

definition updateProductStatus :: "product \<Rightarrow> product" where
  "updateProductStatus p =
     (if quantity p = number 0 then p\<lparr>status := Some ''Out of Stock''\<rparr>
      else if js_le (quantity p) (reorderPoint p) then p\<lparr>status := Some ''Low Stock''\<rparr>
      else p\<lparr>status := Some ''In Stock''\<rparr>)"

section \<open>Responses and requests\<close>

record alert =
  a_productId :: string
  a_productName :: "string option"
  a_currentStock :: jsnum
  a_reorderPoint :: jsnum
  a_severity :: string

text \<open>
  The object of \<^verbatim>\<open>GET /api/analytics\<close>. Two of its fields are left out.
  \<^verbatim>\<open>topProducts\<close> is sorted with a comparator that subtracts two products of fields, and
  where one of them is not a number the comparator is inconsistent and the order
  JavaScript gives is implementation-defined. \<^verbatim>\<open>categoryBreakdown\<close> is accumulated in a
  plain object, so that a category named like a member of \<^verbatim>\<open>Object.prototype\<close>
  (\<^verbatim>\<open>__proto__\<close>, \<^verbatim>\<open>constructor\<close>) is dropped or counted as a string.
\<close>

record analytics =
  totalProducts :: nat
  totalValue :: jsnum
  lowStockCount :: nat
  damagedCount :: nat
  lowStockItems :: "product list"
  alerts :: "alert list"

datatype body =
    HealthBody string string string
  | ProductList "product list"
  | ProductBody product
  | MessageBody string
  | ErrorBody string exn
  | TransactionCreated transaction product
  | TransactionList "transaction list"
  | PopulatedList "(transaction \<times> product option) list"
  | AnalyticsBody analytics
  | SeedBody string nat

text \<open>A response: the HTTP status and the JSON body.\<close>

type_synonym response = "nat \<times> body"

text \<open>
  A run of a \<^verbatim>\<open>try\<close> block: the exception thrown, or the response sent; either way
  with the state the run left.
\<close>

type_synonym outcome = "(exn \<times> state) + (response \<times> state)"

definition catch_with :: "nat \<Rightarrow> string \<Rightarrow> outcome \<Rightarrow> response \<times> state" where
  "catch_with c m r = (case r of Inl (x, s) \<Rightarrow> ((c, ErrorBody m x), s) | Inr v \<Rightarrow> v)"

datatype request =
    Health
  | ListProducts
  | GetProduct string
  | CreateProduct product_body
  | UpdateProduct string product_body
  | DeleteProduct string
  | CreateTransaction transaction_body
  | ListTransactions
  | GetAnalytics
  | Seed

section \<open>Array and collection helpers\<close>

text \<open>\<^verbatim>\<open>Array.prototype.findIndex\<close>, with \<open>None\<close> for \<^verbatim>\<open>-1\<close>.\<close>

fun findIndex :: "('a \<Rightarrow> bool) \<Rightarrow> 'a list \<Rightarrow> nat option" where
  "findIndex P [] = None"
| "findIndex P (x # xs) = (if P x then Some 0 else map_option Suc (findIndex P xs))"

text \<open>\<^verbatim>\<open>xs.splice(i, 1)\<close>.\<close>

definition splice1 :: "nat \<Rightarrow> 'a list \<Rightarrow> 'a list" where
  "splice1 i xs = take i xs @ drop (Suc i) xs"

text \<open>The index of the first product with the given \<^verbatim>\<open>_id\<close>; an absent id matches none.\<close>

definition indexOfId :: "string option \<Rightarrow> product list \<Rightarrow> nat option" where
  "indexOfId i ps = (case i of None \<Rightarrow> None | Some j \<Rightarrow> findIndex (\<lambda>p. pid p = j) ps)"

section \<open>Schema checks of the persistent mode\<close>

definition status_enum :: "string list" where
  "status_enum = [''In Stock'', ''Low Stock'', ''Out of Stock'', ''Damaged'']"

definition type_enum :: "string list" where
  "type_enum = [''IN'', ''OUT'', ''DAMAGE'', ''RETURN'']"

definition missing :: "string \<Rightarrow> 'a option \<Rightarrow> string list" where
  "missing path v = (case v of None \<Rightarrow> [path] | Some _ \<Rightarrow> [])"

definition outside :: "string \<Rightarrow> string list \<Rightarrow> string option \<Rightarrow> string list" where
  "outside path allowed v =
     (case v of None \<Rightarrow> [] | Some x \<Rightarrow> if x \<in> set allowed then [] else [path])"

text \<open>The paths of a product document that fail \<^verbatim>\<open>productSchema\<close>.\<close>

definition validateProduct :: "product \<Rightarrow> string list" where
  "validateProduct p =
     missing ''name'' (name p) @ missing ''sku'' (sku p) @ missing ''category'' (category p)
     @ missing ''quantity'' (quantity p) @ missing ''reorderPoint'' (reorderPoint p)
     @ missing ''unitPrice'' (unitPrice p) @ outside ''status'' status_enum (status p)"

text \<open>The paths of a transaction document that fail \<^verbatim>\<open>transactionSchema\<close>.\<close>

definition validateTransaction :: "transaction \<Rightarrow> string list" where
  "validateTransaction t =
     missing ''productId'' (t_productId t) @ missing ''type'' (t_type t)
     @ outside ''type'' type_enum (t_type t) @ missing ''quantity'' (t_quantity t)"

text \<open>
  \<^verbatim>\<open>new Product(body)\<close>: the payload with the schema's defaults; \<open>k\<close> numbers the
  identifier generated for it.
\<close>

definition new_Product :: "env \<Rightarrow> nat \<Rightarrow> product_body \<Rightarrow> product" where
  "new_Product e k b =
     \<lparr>pid = (case b_id b of None \<Rightarrow> new_id e k | Some i \<Rightarrow> i),
      name = b_name b, sku = b_sku b, category = b_category b,
      quantity = (case b_quantity b of None \<Rightarrow> number 0 | Some q \<Rightarrow> Some q),
      reorderPoint = (case b_reorderPoint b of None \<Rightarrow> number 10 | Some r \<Rightarrow> Some r),
      unitPrice = b_unitPrice b,
      location = (case b_location b of None \<Rightarrow> Some ''Main Warehouse'' | Some l \<Rightarrow> Some l),
      supplier = (case b_supplier b of None \<Rightarrow> Some [] | Some l \<Rightarrow> Some l),
      lastRestocked = (case b_lastRestocked b of None \<Rightarrow> Some (now e) | Some t \<Rightarrow> Some t),
      status = (case b_status b of None \<Rightarrow> Some ''In Stock'' | Some t \<Rightarrow> Some t),
      createdAt = now e, updatedAt = now e\<rparr>"

text \<open>
  \<^verbatim>\<open>{...target, ...req.body}\<close>: the fields the payload carries replace the target's.
  \<open>keep_id\<close> is set where the database applies the payload, which never changes the
  \<^verbatim>\<open>_id\<close> of a document.
\<close>

definition spread :: "bool \<Rightarrow> product \<Rightarrow> product_body \<Rightarrow> product" where
  "spread keep_id p b =
     p\<lparr>pid := (case b_id b of None \<Rightarrow> pid p | Some i \<Rightarrow> if keep_id then pid p else i),
       name := (case b_name b of None \<Rightarrow> name p | Some v \<Rightarrow> Some v),
       sku := (case b_sku b of None \<Rightarrow> sku p | Some v \<Rightarrow> Some v),
       category := (case b_category b of None \<Rightarrow> category p | Some v \<Rightarrow> Some v),
       quantity := (case b_quantity b of None \<Rightarrow> quantity p | Some v \<Rightarrow> Some v),
       reorderPoint := (case b_reorderPoint b of None \<Rightarrow> reorderPoint p | Some v \<Rightarrow> Some v),
       unitPrice := (case b_unitPrice b of None \<Rightarrow> unitPrice p | Some v \<Rightarrow> Some v),
       location := (case b_location b of None \<Rightarrow> location p | Some v \<Rightarrow> Some v),
       supplier := (case b_supplier b of None \<Rightarrow> supplier p | Some v \<Rightarrow> Some v),
       lastRestocked := (case b_lastRestocked b of None \<Rightarrow> lastRestocked p | Some v \<Rightarrow> Some v),
       status := (case b_status b of None \<Rightarrow> status p | Some v \<Rightarrow> Some v)\<rparr>"

text \<open>
  \<^verbatim>\<open>await doc.save()\<close> on a document read from index \<open>i\<close> of the collection, as the
  \<open>k\<close>-th database call: the schema is checked, then the document is written; with
  \<^verbatim>\<open>timestamps\<close>, a document that was changed gets a new \<^verbatim>\<open>updatedAt\<close>.
\<close>

definition save_at :: "env \<Rightarrow> nat \<Rightarrow> nat \<Rightarrow> product \<Rightarrow> state \<Rightarrow> (exn \<times> state) + (product \<times> state)" where
  "save_at e k i p s =
     (if validateProduct p \<noteq> [] then Inl (ValidationError (validateProduct p), s)
      else case fault e k of
        Some x \<Rightarrow> Inl (x, s)
      | None \<Rightarrow>
          (let p' = (if p = dbProducts s ! i then p else p\<lparr>updatedAt := now e\<rparr>)
           in Inr (p', s\<lparr>dbProducts := (dbProducts s)[i := p']\<rparr>)))"

section \<open>Routes\<close>

text \<open>
  Each route is the \<^verbatim>\<open>try\<close> block, an \<open>outcome\<close>, under its \<^verbatim>\<open>catch\<close>. With
  \<^verbatim>\<open>useInMemory\<close> set a handler only reads and writes the arrays; otherwise every
  \<^verbatim>\<open>await\<close>ed call of a model is a database call, numbered from 0 within the handler.
\<close>

definition notFound :: "state \<Rightarrow> outcome" where
  "notFound s = Inr ((404, MessageBody ''Product not found''), s)"

subsection \<open>GET /api/health\<close>

definition getHealth :: "state \<Rightarrow> response \<times> state" where
  "getHealth s =
     ((200, HealthBody ''OK'' ''Server is running''
        (if useInMemory s then ''in-memory'' else ''mongodb'')), s)"

subsection \<open>GET /api/products\<close>

definition listProducts_try :: "env \<Rightarrow> state \<Rightarrow> outcome" where
  "listProducts_try e s =
     (if useInMemory s then Inr ((200, ProductList (inMemoryProducts s)), s)
      else case fault e 0 of
        Some x \<Rightarrow> Inl (x, s)
      | None \<Rightarrow> Inr ((200, ProductList (sort_key (\<lambda>p. - createdAt p) (dbProducts s))), s))"

definition listProducts :: "env \<Rightarrow> state \<Rightarrow> response \<times> state" where
  "listProducts e s = catch_with 500 ''Error fetching products'' (listProducts_try e s)"

subsection \<open>GET /api/products/:id\<close>

definition getProduct_try :: "env \<Rightarrow> string \<Rightarrow> state \<Rightarrow> outcome" where
  "getProduct_try e i s =
     (if useInMemory s then
        (case find (\<lambda>p. pid p = i) (inMemoryProducts s) of
           None \<Rightarrow> notFound s
         | Some p \<Rightarrow> Inr ((200, ProductBody p), s))
      else case fault e 0 of
        Some x \<Rightarrow> Inl (x, s)
      | None \<Rightarrow>
          (case find (\<lambda>p. pid p = i) (dbProducts s) of
             None \<Rightarrow> notFound s
           | Some p \<Rightarrow> Inr ((200, ProductBody p), s)))"

definition getProduct :: "env \<Rightarrow> string \<Rightarrow> state \<Rightarrow> response \<times> state" where
  "getProduct e i s = catch_with 500 ''Error fetching product'' (getProduct_try e i s)"

subsection \<open>POST /api/products\<close>

text \<open>The object literal of the in-memory branch, before its status is derived.\<close>

definition newProduct :: "env \<Rightarrow> state \<Rightarrow> product_body \<Rightarrow> product" where
  "newProduct e s b =
     \<lparr>pid = (case b_id b of None \<Rightarrow> String_of (productIdCounter s) | Some i \<Rightarrow> i),
      name = b_name b, sku = b_sku b, category = b_category b,
      quantity = b_quantity b, reorderPoint = b_reorderPoint b, unitPrice = b_unitPrice b,
      location = b_location b, supplier = b_supplier b,
      lastRestocked = b_lastRestocked b, status = b_status b,
      createdAt = now e, updatedAt = now e\<rparr>"

definition createProduct_try :: "env \<Rightarrow> product_body \<Rightarrow> state \<Rightarrow> outcome" where
  "createProduct_try e b s =
     (if useInMemory s then
        (let p = updateProductStatus (newProduct e s b)
         in Inr ((201, ProductBody p),
                 s\<lparr>productIdCounter := productIdCounter s + 1,
                   inMemoryProducts := inMemoryProducts s @ [p]\<rparr>))
      else
        (let p = updateProductStatus (new_Product e 0 b)
         in if validateProduct p \<noteq> [] then Inl (ValidationError (validateProduct p), s)
            else case fault e 0 of
              Some x \<Rightarrow> Inl (x, s)
            | None \<Rightarrow> Inr ((201, ProductBody p), s\<lparr>dbProducts := dbProducts s @ [p]\<rparr>)))"

definition createProduct :: "env \<Rightarrow> product_body \<Rightarrow> state \<Rightarrow> response \<times> state" where
  "createProduct e b s = catch_with 400 ''Error creating product'' (createProduct_try e b s)"

subsection \<open>PUT /api/products/:id\<close>

text \<open>
  \<^verbatim>\<open>Product.findByIdAndUpdate(id, req.body, { new: true, runValidators: true })\<close>, call 0
  of the handler: the payload is checked, then written to the document with that id, and
  the document as written is returned with its index, or \<open>None\<close> for \<^verbatim>\<open>null\<close>.
\<close>

definition findByIdAndUpdate ::
  "env \<Rightarrow> string \<Rightarrow> product_body \<Rightarrow> state \<Rightarrow> (exn \<times> state) + ((nat \<times> product) option \<times> state)" where
  "findByIdAndUpdate e i b s =
     (if outside ''status'' status_enum (b_status b) \<noteq> []
        then Inl (ValidationError (outside ''status'' status_enum (b_status b)), s)
      else case fault e 0 of
        Some x \<Rightarrow> Inl (x, s)
      | None \<Rightarrow>
          (case findIndex (\<lambda>p. pid p = i) (dbProducts s) of
             None \<Rightarrow> Inr (None, s)
           | Some index \<Rightarrow>
               (let written = (spread True (dbProducts s ! index) b)\<lparr>updatedAt := now e\<rparr>
                in Inr (Some (index, written),
                        s\<lparr>dbProducts := (dbProducts s)[index := written]\<rparr>))))"

text \<open>
  In the persistent branch the status is derived on the document \<^verbatim>\<open>findByIdAndUpdate\<close>
  has written and returned, and \<^verbatim>\<open>save\<close> (call 1) writes the document a second time.
\<close>

definition updateProduct_try :: "env \<Rightarrow> string \<Rightarrow> product_body \<Rightarrow> state \<Rightarrow> outcome" where
  "updateProduct_try e i b s =
     (if useInMemory s then
        (case findIndex (\<lambda>p. pid p = i) (inMemoryProducts s) of
           None \<Rightarrow> notFound s
         | Some index \<Rightarrow>
             (let updatedProduct =
                    updateProductStatus
                      ((spread False (inMemoryProducts s ! index) b)\<lparr>updatedAt := now e\<rparr>)
              in Inr ((200, ProductBody updatedProduct),
                      s\<lparr>inMemoryProducts := (inMemoryProducts s)[index := updatedProduct]\<rparr>)))
      else case findByIdAndUpdate e i b s of
        Inl err \<Rightarrow> Inl err
      | Inr (None, s1) \<Rightarrow> notFound s1
      | Inr (Some (index, product), s1) \<Rightarrow>
          (case save_at e 1 index (updateProductStatus product) s1 of
             Inl err \<Rightarrow> Inl err
           | Inr (p, s2) \<Rightarrow> Inr ((200, ProductBody p), s2)))"

definition updateProduct :: "env \<Rightarrow> string \<Rightarrow> product_body \<Rightarrow> state \<Rightarrow> response \<times> state" where
  "updateProduct e i b s = catch_with 400 ''Error updating product'' (updateProduct_try e i b s)"

subsection \<open>DELETE /api/products/:id\<close>

definition deleteProduct_try :: "env \<Rightarrow> string \<Rightarrow> state \<Rightarrow> outcome" where
  "deleteProduct_try e i s =
     (if useInMemory s then
        (case findIndex (\<lambda>p. pid p = i) (inMemoryProducts s) of
           None \<Rightarrow> notFound s
         | Some index \<Rightarrow>
             Inr ((200, MessageBody ''Product deleted successfully''),
                  s\<lparr>inMemoryProducts := splice1 index (inMemoryProducts s)\<rparr>))
      else case fault e 0 of
        Some x \<Rightarrow> Inl (x, s)
      | None \<Rightarrow>
          (case findIndex (\<lambda>p. pid p = i) (dbProducts s) of
             None \<Rightarrow> notFound s
           | Some index \<Rightarrow>
               Inr ((200, MessageBody ''Product deleted successfully''),
                    s\<lparr>dbProducts := splice1 index (dbProducts s)\<rparr>)))"

definition deleteProduct :: "env \<Rightarrow> string \<Rightarrow> state \<Rightarrow> response \<times> state" where
  "deleteProduct e i s = catch_with 500 ''Error deleting product'' (deleteProduct_try e i s)"

subsection \<open>POST /api/transactions\<close>

text \<open>
  The statements both branches apply to the product they found: the quantity moves by
  the amount, an \<^verbatim>\<open>IN\<close> stamps \<^verbatim>\<open>lastRestocked\<close>, and the status is derived.
\<close>

definition applyMovement :: "env \<Rightarrow> transaction_body \<Rightarrow> product \<Rightarrow> product" where
  "applyMovement e b product =
     (let p1 = (if r_type b = Some ''IN'' \<or> r_type b = Some ''RETURN''
                  then product\<lparr>quantity := js_add (quantity product) (r_quantity b)\<rparr>
                else if r_type b = Some ''OUT'' \<or> r_type b = Some ''DAMAGE''
                  then product\<lparr>quantity := js_sub (quantity product) (r_quantity b)\<rparr>
                else product);
          p2 = (if r_type b = Some ''IN'' then p1\<lparr>lastRestocked := Some (now e)\<rparr> else p1)
      in updateProductStatus p2)"

text \<open>\<^verbatim>\<open>v || d\<close> on an optional string: the empty string is falsy.\<close>

definition or_else :: "string option \<Rightarrow> string \<Rightarrow> string" where
  "or_else v d = (case v of None \<Rightarrow> d | Some x \<Rightarrow> if x = [] then d else x)"

definition createTransaction_try :: "env \<Rightarrow> transaction_body \<Rightarrow> state \<Rightarrow> outcome" where
  "createTransaction_try e b s =
     (if useInMemory s then
        (case indexOfId (r_productId b) (inMemoryProducts s) of
           None \<Rightarrow> notFound s
         | Some index \<Rightarrow>
             (let product = (applyMovement e b (inMemoryProducts s ! index))\<lparr>updatedAt := now e\<rparr>;
                  transaction =
                    \<lparr>t_id = String_of (transactionIdCounter s),
                     t_productId = r_productId b, t_type = r_type b, t_quantity = r_quantity b,
                     t_notes = or_else (r_notes b) [],
                     t_performedBy = or_else (r_performedBy b) ''System'',
                     t_createdAt = now e\<rparr>
              in Inr ((201, TransactionCreated transaction product),
                      s\<lparr>inMemoryProducts := (inMemoryProducts s)[index := product],
                        transactionIdCounter := transactionIdCounter s + 1,
                        inMemoryTransactions := inMemoryTransactions s @ [transaction]\<rparr>)))
      else case fault e 0 of
        Some x \<Rightarrow> Inl (x, s)
      | None \<Rightarrow>
          (case indexOfId (r_productId b) (dbProducts s) of
             None \<Rightarrow> notFound s
           | Some index \<Rightarrow>
               (case save_at e 1 index (applyMovement e b (dbProducts s ! index)) s of
                  Inl err \<Rightarrow> Inl err
                | Inr (product, s1) \<Rightarrow>
                    (let transaction =
                           \<lparr>t_id = new_id e 0,
                            t_productId = r_productId b, t_type = r_type b,
                            t_quantity = r_quantity b,
                            t_notes = (case r_notes b of None \<Rightarrow> [] | Some n \<Rightarrow> n),
                            t_performedBy =
                              (case r_performedBy b of None \<Rightarrow> ''System'' | Some n \<Rightarrow> n),
                            t_createdAt = now e\<rparr>
                     in if validateTransaction transaction \<noteq> []
                          then Inl (ValidationError (validateTransaction transaction), s1)
                        else case fault e 2 of
                          Some x \<Rightarrow> Inl (x, s1)
                        | None \<Rightarrow>
                            Inr ((201, TransactionCreated transaction product),
                                 s1\<lparr>dbTransactions := dbTransactions s1 @ [transaction]\<rparr>)))))"

definition createTransaction :: "env \<Rightarrow> transaction_body \<Rightarrow> state \<Rightarrow> response \<times> state" where
  "createTransaction e b s =
     catch_with 400 ''Error creating transaction'' (createTransaction_try e b s)"

subsection \<open>GET /api/transactions\<close>

text \<open>\<^verbatim>\<open>populate('productId')\<close>: the product the transaction refers to, if it is stored.\<close>

definition populate :: "product list \<Rightarrow> transaction \<Rightarrow> transaction \<times> product option" where
  "populate ps t =
     (t, case t_productId t of None \<Rightarrow> None | Some i \<Rightarrow> find (\<lambda>p. pid p = i) ps)"

definition listTransactions_try :: "env \<Rightarrow> state \<Rightarrow> outcome" where
  "listTransactions_try e s =
     (if useInMemory s then Inr ((200, TransactionList (inMemoryTransactions s)), s)
      else case fault e 0 of
        Some x \<Rightarrow> Inl (x, s)
      | None \<Rightarrow>
          Inr ((200, PopulatedList
                  (map (populate (dbProducts s))
                     (take 100 (sort_key (\<lambda>t. - t_createdAt t) (dbTransactions s))))), s))"

definition listTransactions :: "env \<Rightarrow> state \<Rightarrow> response \<times> state" where
  "listTransactions e s =
     catch_with 500 ''Error fetching transactions'' (listTransactions_try e s)"

subsection \<open>GET /api/analytics\<close>

definition isLowStock :: "product \<Rightarrow> bool" where
  "isLowStock p = (status p = Some ''Low Stock'' \<or> status p = Some ''Out of Stock'')"

definition alertOf :: "product \<Rightarrow> alert" where
  "alertOf p =
     \<lparr>a_productId = pid p, a_productName = name p, a_currentStock = quantity p,
      a_reorderPoint = reorderPoint p,
      a_severity = (if status p = Some ''Out of Stock'' then ''critical'' else ''warning'')\<rparr>"

definition computeAnalytics :: "product list \<Rightarrow> analytics" where
  "computeAnalytics products =
     \<lparr>totalProducts = length products,
      totalValue = foldl (\<lambda>sum p. js_add sum (js_mul (quantity p) (unitPrice p))) (number 0) products,
      lowStockCount = length (filter isLowStock products),
      damagedCount = length (filter (\<lambda>p. status p = Some ''Damaged'') products),
      lowStockItems = take 10 (filter isLowStock products),
      alerts = map alertOf (filter isLowStock products)\<rparr>"

definition getAnalytics_try :: "env \<Rightarrow> state \<Rightarrow> outcome" where
  "getAnalytics_try e s =
     (if useInMemory s then Inr ((200, AnalyticsBody (computeAnalytics (inMemoryProducts s))), s)
      else case fault e 0 of
        Some x \<Rightarrow> Inl (x, s)
      | None \<Rightarrow> Inr ((200, AnalyticsBody (computeAnalytics (dbProducts s))), s))"

definition getAnalytics :: "env \<Rightarrow> state \<Rightarrow> response \<times> state" where
  "getAnalytics e s = catch_with 500 ''Error fetching analytics'' (getAnalytics_try e s)"

subsection \<open>POST /api/seed\<close>

definition sample :: "string \<Rightarrow> string \<Rightarrow> string \<Rightarrow> rat \<Rightarrow> rat \<Rightarrow> rat \<Rightarrow> string \<Rightarrow> string \<Rightarrow> product_body" where
  "sample n k c q r u l v =
     \<lparr>b_id = None, b_name = Some n, b_sku = Some k, b_category = Some c,
      b_quantity = number q, b_reorderPoint = number r, b_unitPrice = number u,
      b_location = Some l, b_supplier = Some v, b_lastRestocked = None, b_status = None\<rparr>"

definition sampleProducts :: "product_body list" where
  "sampleProducts =
     [sample ''Steel Rods (10mm)'' ''SR-10MM-001'' ''Steel'' 150 50 450 ''Warehouse A'' ''Steel Corp India'',
      sample ''Cement Bags (50kg)'' ''CM-50KG-001'' ''Cement'' 200 100 380 ''Warehouse B'' ''UltraTech'',
      sample ''Bricks (Red Clay)'' ''BR-RC-001'' ''Bricks'' 5000 1000 8 ''Yard 1'' ''Local Kiln'',
      sample ''Sand (per ton)'' ''SD-T-001'' ''Aggregates'' 25 10 1200 ''Yard 2'' ''Sand Suppliers Ltd'',
      sample ''Paint (White 20L)'' ''PT-W20-001'' ''Paint'' 8 15 2500 ''Warehouse A'' ''Asian Paints'',
      sample ''Tiles (Ceramic 2x2)'' ''TL-C22-001'' ''Tiles'' 3 20 450 ''Warehouse C'' ''Kajaria'',
      sample ''Plywood (8mm)'' ''PW-8MM-001'' ''Wood'' 45 20 1800 ''Warehouse A'' ''Century Ply'']"

text \<open>The callback of \<^verbatim>\<open>sampleProducts.map\<close> in the in-memory branch, which writes the
  status with a conditional of its own.\<close>

definition seedObject :: "env \<Rightarrow> nat \<times> product_body \<Rightarrow> product" where
  "seedObject e ip =
     (case ip of (i, p) \<Rightarrow>
       \<lparr>pid = (case b_id p of None \<Rightarrow> String_of (i + 1) | Some j \<Rightarrow> j),
        name = b_name p, sku = b_sku p, category = b_category p,
        quantity = b_quantity p, reorderPoint = b_reorderPoint p, unitPrice = b_unitPrice p,
        location = b_location p, supplier = b_supplier p,
        lastRestocked = Some (now e),
        status = Some (if js_le (b_quantity p) (b_reorderPoint p) then ''Low Stock'' else ''In Stock''),
        createdAt = now e, updatedAt = now e\<rparr>)"

text \<open>The callback of the persistent branch; \<open>i\<close> numbers the identifier generated.\<close>

definition seedDocument :: "env \<Rightarrow> nat \<times> product_body \<Rightarrow> product" where
  "seedDocument e ip = (case ip of (i, p) \<Rightarrow> updateProductStatus (new_Product e i p))"

text \<open>
  \<^verbatim>\<open>deleteMany\<close> is call 0 and \<^verbatim>\<open>insertMany\<close> call 1. An \<^verbatim>\<open>insertMany\<close> that throws is
  taken to have inserted nothing.
\<close>

definition seed_try :: "env \<Rightarrow> state \<Rightarrow> outcome" where
  "seed_try e s =
     (if useInMemory s then
        (let products = map (seedObject e) (enumerate 0 sampleProducts)
         in Inr ((200, SeedBody ''Sample data created successfully'' (length products)),
                 s\<lparr>inMemoryProducts := products, productIdCounter := length products + 1\<rparr>))
      else case fault e 0 of
        Some x \<Rightarrow> Inl (x, s)
      | None \<Rightarrow>
          (let s1 = s\<lparr>dbProducts := []\<rparr>;
               products = map (seedDocument e) (enumerate 0 sampleProducts)
           in if concat (map validateProduct products) \<noteq> []
                then Inl (ValidationError (concat (map validateProduct products)), s1)
              else case fault e 1 of
                Some x \<Rightarrow> Inl (x, s1)
              | None \<Rightarrow>
                  Inr ((200, SeedBody ''Sample data created successfully'' (length products)),
                       s1\<lparr>dbProducts := products\<rparr>)))"

definition seed :: "env \<Rightarrow> state \<Rightarrow> response \<times> state" where
  "seed e s = catch_with 500 ''Error seeding data'' (seed_try e s)"

subsection \<open>The route table\<close>

fun handle :: "env \<Rightarrow> request \<Rightarrow> state \<Rightarrow> response \<times> state" where
  "handle e Health s = getHealth s"
| "handle e ListProducts s = listProducts e s"
| "handle e (GetProduct i) s = getProduct e i s"
| "handle e (CreateProduct b) s = createProduct e b s"
| "handle e (UpdateProduct i b) s = updateProduct e i b s"
| "handle e (DeleteProduct i) s = deleteProduct e i s"
| "handle e (CreateTransaction b) s = createTransaction e b s"
| "handle e ListTransactions s = listTransactions e s"
| "handle e GetAnalytics s = getAnalytics e s"
| "handle e Seed s = seed e s"

text \<open>The store a request reads and writes, by the mode.\<close>

definition products :: "state \<Rightarrow> product list" where
  "products s = (if useInMemory s then inMemoryProducts s else dbProducts s)"

definition transactions :: "state \<Rightarrow> transaction list" where
  "transactions s = (if useInMemory s then inMemoryTransactions s else dbTransactions s)"

text \<open>\<^verbatim>\<open>products.find(p => p._id === i)\<close> on the store of the mode.\<close>

definition findProduct :: "state \<Rightarrow> string \<Rightarrow> product option" where
  "findProduct s i = find (\<lambda>p. pid p = i) (products s)"

section \<open>Vocabulary of the properties\<close>

text \<open>The transactions a response of \<^verbatim>\<open>GET /api/transactions\<close> lists, in its order.\<close>

definition listed :: "body \<Rightarrow> transaction list" where
  "listed b =
     (case b of TransactionList ts \<Rightarrow> ts | PopulatedList ps \<Rightarrow> map fst ps | _ \<Rightarrow> [])"

definition newestFirst :: "transaction list \<Rightarrow> bool" where
  "newestFirst ts = sorted_wrt (\<lambda>a b. t_createdAt b \<le> t_createdAt a) ts"

text \<open>A rational number that is an integer.\<close>

definition is_whole :: "rat \<Rightarrow> bool" where
  "is_whole r = (r = of_int \<lfloor>r\<rfloor>)"

text \<open>
  The value of a product in stock, whether both of its factors are numbers, and whether
  both are integers.
\<close>

definition stockValue :: "product \<Rightarrow> rat" where
  "stockValue p =
     (case quantity p of
        Some (Finite q) \<Rightarrow> (case unitPrice p of Some (Finite u) \<Rightarrow> q * u | _ \<Rightarrow> 0)
      | _ \<Rightarrow> 0)"

definition priced :: "product \<Rightarrow> bool" where
  "priced p = (quantity p \<noteq> None \<and> unitPrice p \<noteq> None)"

definition wholePriced :: "product \<Rightarrow> bool" where
  "wholePriced p =
     (case quantity p of
        Some (Finite q) \<Rightarrow>
          (case unitPrice p of Some (Finite u) \<Rightarrow> is_whole q \<and> is_whole u | _ \<Rightarrow> False)
      | _ \<Rightarrow> False)"

text \<open>
  A product whose status is the one its quantity and reorder point derive; a state all of
  whose products, in either store, are so.
\<close>

definition statusDerived :: "product \<Rightarrow> bool" where
  "statusDerived p = (updateProductStatus p = p)"

definition allDerived :: "state \<Rightarrow> bool" where
  "allDerived s =
     (list_all statusDerived (inMemoryProducts s) \<and> list_all statusDerived (dbProducts s))"

definition isUpdate :: "request \<Rightarrow> bool" where
  "isUpdate req = (case req of UpdateProduct i b \<Rightarrow> True | _ \<Rightarrow> False)"

text \<open>
  What identifies an entry of the demo catalog, and the catalog of \<^verbatim>\<open>POST /api/seed\<close>
  with the status of each entry.
\<close>

definition catalogued :: "product \<Rightarrow> string option \<times> string option \<times> jsnum \<times> jsnum \<times> string option" where
  "catalogued p = (name p, sku p, quantity p, reorderPoint p, status p)"

definition demoCatalog :: "(string option \<times> string option \<times> jsnum \<times> jsnum \<times> string option) list" where
  "demoCatalog =
     [(Some ''Steel Rods (10mm)'', Some ''SR-10MM-001'', number 150, number 50, Some ''In Stock''),
      (Some ''Cement Bags (50kg)'', Some ''CM-50KG-001'', number 200, number 100, Some ''In Stock''),
      (Some ''Bricks (Red Clay)'', Some ''BR-RC-001'', number 5000, number 1000, Some ''In Stock''),
      (Some ''Sand (per ton)'', Some ''SD-T-001'', number 25, number 10, Some ''In Stock''),
      (Some ''Paint (White 20L)'', Some ''PT-W20-001'', number 8, number 15, Some ''Low Stock''),
      (Some ''Tiles (Ceramic 2x2)'', Some ''TL-C22-001'', number 3, number 20, Some ''Low Stock''),
      (Some ''Plywood (8mm)'', Some ''PW-8MM-001'', number 45, number 20, Some ''In Stock'')]"

section \<open>Example values\<close>

text \<open>
  A product with five units against a reorder point of ten, a store of each mode holding
  it, an environment in which no database call fails and one in which the \<open>k\<close>-th call
  throws, a stock movement on the product, and payloads. Then an empty in-memory store
  and the store a create request with an empty payload leaves of it, whose one product
  has no quantity; a database whose product has a given quantity; and a database of two
  products, worth \<open>2 ^ 53\<close> and \<open>1\<close>.
\<close>

definition exampleProduct :: product where
  "exampleProduct =
     \<lparr>pid = ''1'', name = Some ''Sand (per ton)'', sku = Some ''SD-T-001'',
      category = Some ''Aggregates'', quantity = number 5, reorderPoint = number 10,
      unitPrice = number 1200, location = Some ''Yard 2'', supplier = Some ''Sand Suppliers Ltd'',
      lastRestocked = Some 0, status = Some ''Low Stock'', createdAt = 0, updatedAt = 0\<rparr>"

definition exampleEnv :: env where
  "exampleEnv = \<lparr>now = 1000, new_id = (\<lambda>k. ''n'' @ String_of k), fault = (\<lambda>k. None)\<rparr>"

definition failingAt :: "nat \<Rightarrow> exn \<Rightarrow> env" where
  "failingAt k x = exampleEnv\<lparr>fault := (\<lambda>j. if j = k then Some x else None)\<rparr>"

definition memoryState :: state where
  "memoryState =
     \<lparr>useInMemory = True, inMemoryProducts = [exampleProduct], inMemoryTransactions = [],
      productIdCounter = 2, transactionIdCounter = 1, dbProducts = [], dbTransactions = []\<rparr>"

definition databaseState :: state where
  "databaseState =
     \<lparr>useInMemory = False, inMemoryProducts = [], inMemoryTransactions = [],
      productIdCounter = 1, transactionIdCounter = 1, dbProducts = [exampleProduct],
      dbTransactions = []\<rparr>"


definition exampleTransaction :: "nat \<Rightarrow> transaction" where
  "exampleTransaction k =
     \<lparr>t_id = String_of k, t_productId = Some ''1'', t_type = Some ''IN'', t_quantity = number 1,
      t_notes = [], t_performedBy = ''System'', t_createdAt = int k\<rparr>"

definition crowdedMemory :: state where
  "crowdedMemory =
     memoryState\<lparr>inMemoryTransactions := map exampleTransaction [1..<102],
       transactionIdCounter := 102\<rparr>"

definition twoInMemory :: state where
  "twoInMemory =
     memoryState\<lparr>inMemoryTransactions := [exampleTransaction 1, exampleTransaction 2],
       transactionIdCounter := 3\<rparr>"

definition threeInDatabase :: state where
  "threeInDatabase =
     databaseState\<lparr>dbTransactions :=
       [exampleTransaction 1, exampleTransaction 3, exampleTransaction 2]\<rparr>"

definition referencedState :: state where
  "referencedState =
     databaseState\<lparr>dbTransactions := [exampleTransaction 1, exampleTransaction 2]\<rparr>"

definition twoProducts :: state where
  "twoProducts =
     databaseState\<lparr>dbProducts :=
       [exampleProduct, exampleProduct\<lparr>pid := ''2'', quantity := number 3, unitPrice := number 450\<rparr>]\<rparr>"

definition exampleBody :: product_body where
  "exampleBody =
     \<lparr>b_id = None, b_name = Some ''Gravel'', b_sku = Some ''GR-001'',
      b_category = Some ''Aggregates'', b_quantity = number 5, b_reorderPoint = number 10,
      b_unitPrice = number 900, b_location = None, b_supplier = None, b_lastRestocked = None,
      b_status = None\<rparr>"

definition emptyBody :: product_body where
  "emptyBody =
     \<lparr>b_id = None, b_name = None, b_sku = None, b_category = None, b_quantity = None,
      b_reorderPoint = None, b_unitPrice = None, b_location = None, b_supplier = None,
      b_lastRestocked = None, b_status = None\<rparr>"

definition damagedBody :: product_body where
  "damagedBody = exampleBody\<lparr>b_status := Some ''Damaged''\<rparr>"

definition emptyMemory :: state where
  "emptyMemory =
     \<lparr>useInMemory = True, inMemoryProducts = [], inMemoryTransactions = [],
      productIdCounter = 1, transactionIdCounter = 1, dbProducts = [], dbTransactions = []\<rparr>"

definition bareMemory :: state where
  "bareMemory = snd (createProduct exampleEnv emptyBody emptyMemory)"



definition roundedProducts :: state where
  "roundedProducts =
     databaseState\<lparr>dbProducts :=
       [exampleProduct\<lparr>quantity := number (2 ^ 53), unitPrice := number 1\<rparr>,
        exampleProduct\<lparr>pid := ''2'', quantity := number 1, unitPrice := number 1\<rparr>]\<rparr>"

section \<open>Doubles\<close>

lemma pow2_pos [simp]: "0 < pow2 e"
  by (simp add: pow2_def)

lemma pow2_Suc: "pow2 (e + 1) = 2 * pow2 e"
proof (cases "0 \<le> e")
  case True
  then show ?thesis by (simp add: pow2_def nat_add_distrib)
next
  case False
  then have "nat (- e) = Suc (nat (- (e + 1)))" by simp
  then show ?thesis using False by (auto simp: pow2_def)
qed

lemma pow2_add_nat: "pow2 (e + int k) = 2 ^ k * pow2 e"
proof (induction k)
  case 0
  then show ?case by simp
next
  case (Suc k)
  have "e + int (Suc k) = (e + int k) + 1" by simp
  then have "pow2 (e + int (Suc k)) = pow2 ((e + int k) + 1)" by (simp only:)
  also have "\<dots> = 2 * pow2 (e + int k)" by (rule pow2_Suc)
  finally show ?case using Suc by simp
qed

lemma pow2_mono: "e \<le> e' \<Longrightarrow> pow2 e \<le> pow2 e'"
proof -
  assume "e \<le> e'"
  then obtain k where "e' = e + int k" by (metis zle_iff_zadd)
  then show ?thesis using pow2_add_nat [of e k] by simp
qed

lemma pow2_less_imp: "pow2 e < pow2 e' \<Longrightarrow> e < e'"
  using pow2_mono [of e' e] by (cases "e < e'") auto

lemma pow2_nonpos: "e \<le> 0 \<Longrightarrow> pow2 e * 2 ^ nat (- e) = 1"
  by (auto simp: pow2_def)

text \<open>The search stops at the first exponent that fits.\<close>

lemma ulp_exponent_le:
  "e \<le> e' \<Longrightarrow> e' \<le> 971 \<Longrightarrow> x < pow2 (e' + 53) \<Longrightarrow> ulp_exponent x e \<le> e'"
proof (induction x e rule: ulp_exponent.induct)
  case (1 x e)
  show ?case
  proof (cases "971 \<le> e \<or> x < pow2 (e + 53)")
    case True
    then show ?thesis using "1.prems" by (auto simp: ulp_exponent.simps [of x e])
  next
    case False
    then have "e \<noteq> e'" using "1.prems" by auto
    then have "e + 1 \<le> e'" using "1.prems" by simp
    then have "ulp_exponent x (e + 1) \<le> e'" using "1.IH" False "1.prems" by simp
    then show ?thesis using False by (simp add: ulp_exponent.simps [of x e])
  qed
qed

text \<open>It does not stop below a binade the magnitude has reached.\<close>

lemma ulp_exponent_reach:
  "e \<le> 971 \<Longrightarrow> e' \<le> 971 \<Longrightarrow> pow2 (e' + 52) \<le> x \<Longrightarrow> e' \<le> ulp_exponent x e"
proof (induction x e rule: ulp_exponent.induct)
  case (1 x e)
  show ?case
  proof (cases "971 \<le> e")
    case True
    with "1.prems" have "e = 971" by simp
    then show ?thesis using "1.prems" by (simp add: ulp_exponent.simps [of x 971])
  next
    case notcap: False
    show ?thesis
    proof (cases "x < pow2 (e + 53)")
      case True
      then have "pow2 (e' + 52) < pow2 (e + 53)" using "1.prems" by simp
      then have "e' + 52 < e + 53" by (rule pow2_less_imp)
      then show ?thesis using True notcap by (simp add: ulp_exponent.simps [of x e])
    next
      case False
      then have "e' \<le> ulp_exponent x (e + 1)" using "1.IH" notcap "1.prems" by simp
      then show ?thesis using False notcap by (simp add: ulp_exponent.simps [of x e])
    qed
  qed
qed

lemma round_half_even_of_int [simp]: "round_half_even (of_int k) = k"
  by (simp add: round_half_even_def)

lemma round_half_even_half:
  "round_half_even (of_int z + 1 / 2) = (if even z then z else z + 1)"
proof -
  have "\<lfloor>of_int z + 1 / 2 :: rat\<rfloor> = z" by (simp add: floor_eq_iff)
  then show ?thesis by (simp add: round_half_even_def)
qed

text \<open>An integer of magnitude at most \<open>2 ^ 53\<close> is a double.\<close>

lemma round_double_of_int:
  assumes "\<bar>k\<bar> \<le> 2 ^ 53"
  shows "round_double (of_int k) = Finite (of_int k)"
proof -
  define x :: rat where "x = \<bar>of_int k\<bar>"
  define e where "e = ulp_exponent x (- 1074)"
  have x: "x = of_int \<bar>k\<bar>" by (simp add: x_def)
  have "x < pow2 (1 + 53)"
  proof -
    have "of_int \<bar>k\<bar> \<le> (of_int (2 ^ 53) :: rat)" using assms by (simp only: of_int_le_iff)
    then show ?thesis by (simp add: pow2_def x)
  qed
  then have le1: "e \<le> 1" unfolding e_def by (intro ulp_exponent_le) simp_all
  have whole: "\<exists>m. x / pow2 e = of_int m \<and> of_int m * pow2 e = x"
  proof (cases "e \<le> 0")
    case True
    have "x / pow2 e = x * 2 ^ nat (- e)"
      using pow2_nonpos [OF True] pow2_pos [of e]
      by (metis divide_inverse inverse_unique mult.commute)
    also have "\<dots> = of_int (\<bar>k\<bar> * 2 ^ nat (- e))" by (simp add: x)
    finally have "x / pow2 e = of_int (\<bar>k\<bar> * 2 ^ nat (- e))" .
    moreover have "of_int (\<bar>k\<bar> * 2 ^ nat (- e)) * pow2 e = x"
      using pow2_nonpos [OF True] by (simp add: x mult.assoc mult.commute)
    ultimately show ?thesis by blast
  next
    case False
    with le1 have e1: "e = 1" by simp
    have "pow2 (1 + 52) \<le> x"
    proof (rule ccontr)
      assume "\<not> pow2 (1 + 52) \<le> x"
      then have "x < pow2 (0 + 53)" by simp
      then have "e \<le> 0" unfolding e_def by (intro ulp_exponent_le) simp_all
      with e1 show False by simp
    qed
    then have "(of_int (2 ^ 53) :: rat) \<le> of_int \<bar>k\<bar>" by (simp add: pow2_def x)
    then have "2 ^ 53 \<le> \<bar>k\<bar>" by (simp only: of_int_le_iff)
    with assms have k: "\<bar>k\<bar> = 2 ^ 53" by simp
    have pe: "pow2 e = 2" unfolding e1 by (simp add: pow2_def)
    have xv: "x = 2 ^ 53" unfolding x k by simp
    have "x / pow2 e = of_int (2 ^ 52)" and "of_int (2 ^ 52) * pow2 e = x"
      unfolding pe xv by simp_all
    then show ?thesis by blast
  qed
  then obtain m where m: "x / pow2 e = of_int m" "of_int m * pow2 e = x" by blast
  have "e \<noteq> 971" using le1 by simp
  then have "round_double (of_int k) = Finite (sgn (of_int k) * (of_int m * pow2 e))"
    unfolding round_double_def Let_def x_def [symmetric] e_def [symmetric]
    by (simp add: m(1) mult.assoc)
  also have "sgn (of_int k :: rat) * (of_int m * pow2 e) = of_int k"
    unfolding m(2) x_def by (simp add: sgn_mult_abs)
  finally show ?thesis .
qed

lemma round_double_whole:
  assumes "is_whole r" and "\<bar>r\<bar> \<le> 2 ^ 53"
  shows "round_double r = Finite r"
proof -
  from assms(1) have r: "r = of_int \<lfloor>r\<rfloor>" by (simp add: is_whole_def)
  have "(of_int \<bar>\<lfloor>r\<rfloor>\<bar> :: rat) \<le> of_int (2 ^ 53)" using assms(2) r by (metis of_int_abs of_int_numeral of_int_power)
  then have "\<bar>\<lfloor>r\<rfloor>\<bar> \<le> 2 ^ 53" by (simp only: of_int_le_iff)
  from round_double_of_int [OF this] r show ?thesis by simp
qed

text \<open>Above \<open>2 ^ 53\<close> the doubles are the even integers: \<open>2 ^ 53 + 1\<close> is not one.\<close>

lemma round_double_beyond:
  "round_double (2 ^ 53 + 1) = Finite (2 ^ 53)"
  "round_double (- (2 ^ 53) - 1) = Finite (- (2 ^ 53))"
proof -
  let ?x = "2 ^ 53 + 1 :: rat"
  have "ulp_exponent ?x (- 1074) \<le> 1"
    by (intro ulp_exponent_le) (simp_all add: pow2_def)
  moreover have "1 \<le> ulp_exponent ?x (- 1074)"
    by (intro ulp_exponent_reach) (simp_all add: pow2_def)
  ultimately have e: "ulp_exponent ?x (- 1074) = 1" by simp
  have "?x / pow2 1 = of_int (2 ^ 52) + 1 / 2" by (simp add: pow2_def)
  then have m: "round_half_even (?x / pow2 1) = 2 ^ 52"
    by (simp only: round_half_even_half) simp
  have a: "\<bar>?x\<bar> = ?x" "\<bar>- (2 ^ 53) - 1 :: rat\<bar> = ?x" by simp_all
  show "round_double (2 ^ 53 + 1) = Finite (2 ^ 53)"
    unfolding round_double_def Let_def a e m by (simp add: pow2_def)
  show "round_double (- (2 ^ 53) - 1) = Finite (- (2 ^ 53))"
    unfolding round_double_def Let_def a e m by (simp add: pow2_def)
qed

text \<open>Sums, differences and products of integers are exact up to \<open>2 ^ 53\<close>.\<close>

lemma js_add_whole:
  "\<bar>q + n\<bar> \<le> 2 ^ 53 \<Longrightarrow>
     js_add (number (of_int q)) (number (of_int n)) = number (of_int (q + n))"
  using round_double_of_int [of "q + n"] by (simp add: js_add_def add_double_def)


lemma js_mul_whole:
  "\<bar>q * n\<bar> \<le> 2 ^ 53 \<Longrightarrow>
     js_mul (number (of_int q)) (number (of_int n)) = number (of_int (q * n))"
  using round_double_of_int [of "q * n"] by (simp add: js_mul_def mul_double_def)

lemma js_add_beyond: "js_add (number (2 ^ 53)) (number 1) = number (2 ^ 53)"
  using round_double_beyond(1) by (simp add: js_add_def add_double_def)


lemma js_absent [simp]:
  "js_add None b = None" "js_sub None b = None" "js_mul None b = None" "js_mul a None = None"
  by (simp_all add: js_add_def js_sub_def js_mul_def split: option.splits)

lemma is_whole_iff: "is_whole r = (r \<in> \<int>)"
  by (metis Ints_cases Ints_of_int floor_of_int is_whole_def)

lemma is_whole_numeral [simp]: "is_whole (numeral k)" "is_whole 0" "is_whole 1"
  by (simp_all add: is_whole_iff)

section \<open>Arrays\<close>

lemma findIndex_SomeD:
  "findIndex P xs = Some i \<Longrightarrow> i < length xs \<and> P (xs ! i)"
proof (induction xs arbitrary: i)
  case Nil
  then show ?case by simp
next
  case (Cons x xs)
  then show ?case by (auto split: if_splits)
qed

lemma find_findIndex:
  "find P xs = map_option (\<lambda>i. xs ! i) (findIndex P xs)"
  by (induction xs) (auto simp: option.map_comp comp_def)



lemma findProduct_index:
  "findProduct s i = Some p \<Longrightarrow>
     \<exists>k. findIndex (\<lambda>p. pid p = i) (products s) = Some k \<and> products s ! k = p"
  by (auto simp: findProduct_def find_findIndex)

lemma list_all_update:
  "list_all P xs \<Longrightarrow> P y \<Longrightarrow> list_all P (xs[i := y])"
  using set_update_subset_insert [of xs i y] by (auto simp: list_all_iff)

lemma list_all_splice1: "list_all P xs \<Longrightarrow> list_all P (splice1 i xs)"
  by (auto simp: list_all_iff splice1_def dest: in_set_takeD in_set_dropD)

lemma splice1_length:
  "i < length xs \<Longrightarrow> length (splice1 i xs) + 1 = length xs"
  by (simp add: splice1_def)

lemma sorted_wrt_take_drop:
  assumes "sorted_wrt R xs"
  shows "sorted_wrt R (take n xs) \<and> (\<forall>a\<in>set (take n xs). \<forall>b\<in>set (drop n xs). R a b)"
proof -
  have "sorted_wrt R (take n xs @ drop n xs)" using assms by simp
  then show ?thesis unfolding sorted_wrt_append by blast
qed

section \<open>The examples\<close>



lemma example_run:
  "fault exampleEnv k = None" "\<not> useInMemory databaseState" "useInMemory memoryState"
  "now exampleEnv = 1000"
  by (simp_all add: exampleEnv_def databaseState_def memoryState_def)


lemma failingAt_fault:
  "fault (failingAt k x) k = Some x" "j \<noteq> k \<Longrightarrow> fault (failingAt k x) j = None"
  by (simp_all add: failingAt_def)

section \<open>The derived status\<close>

lemma status_updateProductStatus:
  "status (updateProductStatus p) =
     Some (if quantity p = number 0 then ''Out of Stock''
           else if js_le (quantity p) (reorderPoint p) then ''Low Stock'' else ''In Stock'')"
  by (simp add: updateProductStatus_def)

lemma updateProductStatus_eq:
  "updateProductStatus p = p\<lparr>status := status (updateProductStatus p)\<rparr>"
  by (simp add: updateProductStatus_def)

lemma updateProductStatus_fields [simp]:
  "pid (updateProductStatus p) = pid p"
  "quantity (updateProductStatus p) = quantity p"
  "reorderPoint (updateProductStatus p) = reorderPoint p"
  "lastRestocked (updateProductStatus p) = lastRestocked p"
  "name (updateProductStatus p) = name p"
  "sku (updateProductStatus p) = sku p"
  "category (updateProductStatus p) = category p"
  "unitPrice (updateProductStatus p) = unitPrice p"
  by (simp_all add: updateProductStatus_def)

text \<open>
  C1 (as amended). For every quantity \<open>q\<close> and reorder point \<open>r\<close> the derived status is
  Out of Stock iff \<open>q = 0\<close>, Low Stock iff \<open>q \<noteq> 0\<close> and \<open>q \<le> r\<close>, and In Stock iff
  \<open>q \<noteq> 0\<close> and \<open>r < q\<close>: exactly one of the three applies. The second case holds every
  negative quantity up to the reorder point, and the first wins over the third when the
  reorder point is negative.
\<close>

theorem updateProductStatus_table:
  "(status (updateProductStatus (p\<lparr>quantity := number q, reorderPoint := number r\<rparr>)) = Some ''Out of Stock'') = (q = 0)
   \<and> (status (updateProductStatus (p\<lparr>quantity := number q, reorderPoint := number r\<rparr>)) = Some ''Low Stock'') = (q \<noteq> 0 \<and> q \<le> r)
   \<and> (status (updateProductStatus (p\<lparr>quantity := number q, reorderPoint := number r\<rparr>)) = Some ''In Stock'') = (q \<noteq> 0 \<and> r < q)"
  by (auto simp: status_updateProductStatus js_le_def le_double_def)

text \<open>
  The table as first written, Low Stock iff \<open>0 < q \<le> r\<close> and In Stock iff \<open>r < q\<close>, fails
  at \<open>q = -5, r = 10\<close>, which is Low Stock, and at \<open>q = 0, r = -1\<close>, which is Out of Stock.
\<close>

theorem updateProductStatus_negative_counterexample:
  "\<not> ((status (updateProductStatus (exampleProduct\<lparr>quantity := number (- 5), reorderPoint := number 10\<rparr>))
          = Some ''Low Stock'') = (0 < (- 5 :: rat) \<and> (- 5 :: rat) \<le> 10))
   \<and> \<not> ((status (updateProductStatus (exampleProduct\<lparr>quantity := number 0, reorderPoint := number (- 1)\<rparr>))
          = Some ''In Stock'') = ((- 1 :: rat) < 0))"
  by (simp add: status_updateProductStatus js_le_def le_double_def)

text \<open>On quantities and reorder points that are not negative the two tables agree.\<close>

lemma updateProductStatus_nonnegative:
  assumes "0 \<le> q" and "0 \<le> r"
  shows "(status (updateProductStatus (p\<lparr>quantity := number q, reorderPoint := number r\<rparr>)) = Some ''Out of Stock'') = (q = 0)"
    and "(status (updateProductStatus (p\<lparr>quantity := number q, reorderPoint := number r\<rparr>)) = Some ''Low Stock'') = (0 < q \<and> q \<le> r)"
    and "(status (updateProductStatus (p\<lparr>quantity := number q, reorderPoint := number r\<rparr>)) = Some ''In Stock'') = (r < q)"
  using assms by (auto simp: status_updateProductStatus js_le_def le_double_def)

section \<open>Stock movements\<close>

lemma validate_updateProductStatus:
  "validateProduct (updateProductStatus p) =
     missing ''name'' (name p) @ missing ''sku'' (sku p) @ missing ''category'' (category p)
     @ missing ''quantity'' (quantity p) @ missing ''reorderPoint'' (reorderPoint p)
     @ missing ''unitPrice'' (unitPrice p)"
  by (simp add: validateProduct_def status_updateProductStatus outside_def status_enum_def
      )


lemma applyMovement_fields [simp]:
  "pid (applyMovement e b p) = pid p"
  "name (applyMovement e b p) = name p"
  "sku (applyMovement e b p) = sku p"
  "category (applyMovement e b p) = category p"
  "reorderPoint (applyMovement e b p) = reorderPoint p"
  "unitPrice (applyMovement e b p) = unitPrice p"
  by (simp_all add: applyMovement_def Let_def)







text \<open>The stores of the examples that have no quantity, and a large one.\<close>

lemma String_of_1: "String_of 1 = ''1''" "String_of (Suc 0) = ''1''"
  by (simp_all add: String_of.simps digit_def)

lemma bareMemory_products:
  "fst (fst (createProduct exampleEnv emptyBody emptyMemory)) = 201"
  "useInMemory bareMemory"
  "map pid (products bareMemory) = [''1'']"
  "map quantity (products bareMemory) = [None]"
  by (simp_all add: bareMemory_def createProduct_def createProduct_try_def catch_with_def
      Let_def emptyMemory_def products_def newProduct_def emptyBody_def String_of_1)












section \<open>Listing transactions\<close>

lemma newest_sort_key:
  "sorted_wrt (\<lambda>a b. t_createdAt b \<le> t_createdAt a) (sort_key (\<lambda>t. - t_createdAt t) ts)"
proof -
  have "sorted (map (\<lambda>t. - t_createdAt t) (sort_key (\<lambda>t. - t_createdAt t) ts))"
    by (rule sorted_sort_key)
  then show ?thesis by (simp add: sorted_map)
qed

lemma listed_populate: "listed (PopulatedList (map (populate ps) ts)) = ts"
  by (simp add: listed_def populate_def comp_def)

text \<open>
  C5 (as amended). In the in-memory mode \<^verbatim>\<open>GET /api/transactions\<close> returns every stored
  transaction, in the order of insertion. In the persistent mode, when the query does not
  throw, it returns \<open>min 100 n\<close> of the \<open>n\<close> stored transactions, newest first, each with
  its product resolved, and none of those left out is more recent than one returned.
\<close>

theorem listTransactions_by_mode:
  "(useInMemory s \<longrightarrow>
      fst (listTransactions e s) = (200, TransactionList (inMemoryTransactions s)))
   \<and> (\<not> useInMemory s \<and> fault e 0 = None \<longrightarrow>
      (\<exists>ts rest.
         fst (listTransactions e s) = (200, PopulatedList (map (populate (dbProducts s)) ts))
         \<and> length ts = min 100 (length (dbTransactions s))
         \<and> newestFirst ts
         \<and> mset (ts @ rest) = mset (dbTransactions s)
         \<and> (\<forall>t\<in>set ts. \<forall>u\<in>set rest. t_createdAt u \<le> t_createdAt t)))"
proof (intro conjI impI)
  assume "useInMemory s"
  then show "fst (listTransactions e s) = (200, TransactionList (inMemoryTransactions s))"
    by (simp add: listTransactions_def listTransactions_try_def catch_with_def)
next
  assume run: "\<not> useInMemory s \<and> fault e 0 = None"
  let ?all = "sort_key (\<lambda>t. - t_createdAt t) (dbTransactions s)"
  let ?ts = "take 100 ?all" and ?rest = "drop 100 ?all"
  have "fst (listTransactions e s) = (200, PopulatedList (map (populate (dbProducts s)) ?ts))"
    using run by (simp add: listTransactions_def listTransactions_try_def catch_with_def)
  moreover have "length ?ts = min 100 (length (dbTransactions s))"
    by (simp add: min.commute)
  moreover have "newestFirst ?ts"
    and "\<forall>t\<in>set ?ts. \<forall>u\<in>set ?rest. t_createdAt u \<le> t_createdAt t"
    using sorted_wrt_take_drop [OF newest_sort_key, of 100 "dbTransactions s"]
    by (simp_all add: newestFirst_def)
  moreover have "mset (?ts @ ?rest) = mset (dbTransactions s)"
    by simp
  ultimately show "\<exists>ts rest.
      fst (listTransactions e s) = (200, PopulatedList (map (populate (dbProducts s)) ts))
      \<and> length ts = min 100 (length (dbTransactions s))
      \<and> newestFirst ts
      \<and> mset (ts @ rest) = mset (dbTransactions s)
      \<and> (\<forall>t\<in>set ts. \<forall>u\<in>set rest. t_createdAt u \<le> t_createdAt t)"
    by blast
qed

theorem listTransactions_by_mode_witness:
  "useInMemory twoInMemory
   \<and> fst (listTransactions exampleEnv twoInMemory)
       = (200, TransactionList [exampleTransaction 1, exampleTransaction 2])
   \<and> \<not> useInMemory threeInDatabase \<and> fault exampleEnv 0 = None
   \<and> (\<exists>ts rest.
         fst (listTransactions exampleEnv threeInDatabase)
           = (200, PopulatedList (map (populate (dbProducts threeInDatabase)) ts))
         \<and> length ts = 3
         \<and> newestFirst ts
         \<and> mset (ts @ rest) = mset (dbTransactions threeInDatabase)
         \<and> (\<forall>t\<in>set ts. \<forall>u\<in>set rest. t_createdAt u \<le> t_createdAt t))"
proof -
  have m: "useInMemory twoInMemory"
    and ts: "inMemoryTransactions twoInMemory = [exampleTransaction 1, exampleTransaction 2]"
    by (simp_all add: twoInMemory_def memoryState_def)
  have d: "\<not> useInMemory threeInDatabase" and f: "fault exampleEnv 0 = None"
    and n: "length (dbTransactions threeInDatabase) = 3"
    by (simp_all add: threeInDatabase_def databaseState_def exampleEnv_def)
  show ?thesis
    using listTransactions_by_mode [of twoInMemory exampleEnv]
      listTransactions_by_mode [of threeInDatabase exampleEnv]
    by (simp add: m ts d f n)
qed

text \<open>
  In the in-memory mode a store of 101 transactions is listed whole, and two transactions
  are listed oldest first.
\<close>

theorem listTransactions_memory_counterexample:
  "\<not> length (listed (snd (fst (listTransactions exampleEnv crowdedMemory)))) \<le> 100
   \<and> \<not> newestFirst (listed (snd (fst (listTransactions exampleEnv twoInMemory))))"
  by (simp add: listTransactions_def listTransactions_try_def catch_with_def listed_def
      crowdedMemory_def twoInMemory_def memoryState_def newestFirst_def exampleTransaction_def)

section \<open>Errors of the product routes\<close>

lemma catch_with_code:
  "fst (fst (catch_with c m r)) = (case r of Inl err \<Rightarrow> c | Inr v \<Rightarrow> fst (fst v))"
  by (simp add: catch_with_def split: sum.splits prod.splits)

lemma listProducts_try_code:
  "listProducts_try e s = Inr v \<Longrightarrow> fst (fst v) = 200"
  by (auto simp: listProducts_try_def split: if_splits option.splits)

lemma getProduct_try_code:
  "getProduct_try e i s = Inr v \<Longrightarrow> fst (fst v) = 200 \<or> fst (fst v) = 404"
  by (auto simp: getProduct_try_def notFound_def split: if_splits option.splits)

lemma createProduct_try_code:
  "createProduct_try e b s = Inr v \<Longrightarrow> fst (fst v) = 201"
  by (auto simp: createProduct_try_def Let_def split: if_splits option.splits)

lemma updateProduct_try_code:
  "updateProduct_try e i b s = Inr v \<Longrightarrow> fst (fst v) = 200 \<or> fst (fst v) = 404"
  by (auto simp: updateProduct_try_def findByIdAndUpdate_def notFound_def Let_def
      split: if_splits option.splits sum.splits)

lemma deleteProduct_try_code:
  "deleteProduct_try e i s = Inr v \<Longrightarrow> fst (fst v) = 200 \<or> fst (fst v) = 404"
  by (auto simp: deleteProduct_try_def notFound_def split: if_splits option.splits)

lemma crud_status_codes:
  "fst (fst (listProducts e s)) = 200 \<or> fst (fst (listProducts e s)) = 500"
  "fst (fst (getProduct e i s)) = 200 \<or> fst (fst (getProduct e i s)) = 404
     \<or> fst (fst (getProduct e i s)) = 500"
  "fst (fst (createProduct e b s)) = 201 \<or> fst (fst (createProduct e b s)) = 400"
  "fst (fst (updateProduct e i b s)) = 200 \<or> fst (fst (updateProduct e i b s)) = 404
     \<or> fst (fst (updateProduct e i b s)) = 400"
  "fst (fst (deleteProduct e i s)) = 200 \<or> fst (fst (deleteProduct e i s)) = 404
     \<or> fst (fst (deleteProduct e i s)) = 500"
  using listProducts_try_code [of e s] getProduct_try_code [of e i s]
    createProduct_try_code [of e b s] updateProduct_try_code [of e i b s]
    deleteProduct_try_code [of e i s]
  by (auto simp: listProducts_def getProduct_def createProduct_def updateProduct_def
      deleteProduct_def catch_with_code split: sum.splits)

text \<open>
  C6 (as amended). Each of the five product routes answers every exception its handler
  catches with one fixed status, whatever the exception is: 500 for list, get-by-id and
  delete, 400 for create and update. The response carries the route's message and the
  underlying error. So list, get-by-id and delete never answer 400, and create and
  update never answer 500.
\<close>

theorem crud_errors_by_handler:
  "(listProducts_try e s = Inl (x, s') \<longrightarrow>
      listProducts e s = ((500, ErrorBody ''Error fetching products'' x), s'))
   \<and> (getProduct_try e i s = Inl (x, s') \<longrightarrow>
      getProduct e i s = ((500, ErrorBody ''Error fetching product'' x), s'))
   \<and> (createProduct_try e b s = Inl (x, s') \<longrightarrow>
      createProduct e b s = ((400, ErrorBody ''Error creating product'' x), s'))
   \<and> (updateProduct_try e i b s = Inl (x, s') \<longrightarrow>
      updateProduct e i b s = ((400, ErrorBody ''Error updating product'' x), s'))
   \<and> (deleteProduct_try e i s = Inl (x, s') \<longrightarrow>
      deleteProduct e i s = ((500, ErrorBody ''Error deleting product'' x), s'))
   \<and> (fst (fst (listProducts e s)) = 200 \<or> fst (fst (listProducts e s)) = 500)
   \<and> (fst (fst (getProduct e i s)) = 200 \<or> fst (fst (getProduct e i s)) = 404
        \<or> fst (fst (getProduct e i s)) = 500)
   \<and> (fst (fst (createProduct e b s)) = 201 \<or> fst (fst (createProduct e b s)) = 400)
   \<and> (fst (fst (updateProduct e i b s)) = 200 \<or> fst (fst (updateProduct e i b s)) = 404
        \<or> fst (fst (updateProduct e i b s)) = 400)
   \<and> (fst (fst (deleteProduct e i s)) = 200 \<or> fst (fst (deleteProduct e i s)) = 404
        \<or> fst (fst (deleteProduct e i s)) = 500)"
proof -
  have "(listProducts_try e s = Inl (x, s') \<longrightarrow>
      listProducts e s = ((500, ErrorBody ''Error fetching products'' x), s'))
   \<and> (getProduct_try e i s = Inl (x, s') \<longrightarrow>
      getProduct e i s = ((500, ErrorBody ''Error fetching product'' x), s'))
   \<and> (createProduct_try e b s = Inl (x, s') \<longrightarrow>
      createProduct e b s = ((400, ErrorBody ''Error creating product'' x), s'))
   \<and> (updateProduct_try e i b s = Inl (x, s') \<longrightarrow>
      updateProduct e i b s = ((400, ErrorBody ''Error updating product'' x), s'))
   \<and> (deleteProduct_try e i s = Inl (x, s') \<longrightarrow>
      deleteProduct e i s = ((500, ErrorBody ''Error deleting product'' x), s'))"
    by (simp add: listProducts_def getProduct_def createProduct_def updateProduct_def
        deleteProduct_def catch_with_def)
  then show ?thesis
    using crud_status_codes(1) [of e s] crud_status_codes(2) [of e i s]
      crud_status_codes(3) [of e b s] crud_status_codes(4) [of e i b s]
      crud_status_codes(5) [of e i s]
    by blast
qed

text \<open>
  In the persistent mode an exception of the first database call reaches the \<^verbatim>\<open>catch\<close> of
  every product route, and a payload without its required fields does not pass the
  schema on create.
\<close>

lemma database_throws:
  assumes "\<not> useInMemory s" and "fault e 0 = Some x"
  shows "listProducts_try e s = Inl (x, s)"
    and "getProduct_try e i s = Inl (x, s)"
    and "deleteProduct_try e i s = Inl (x, s)"
    and "validateProduct (updateProductStatus (new_Product e 0 b)) = [] \<Longrightarrow>
           createProduct_try e b s = Inl (x, s)"
    and "outside ''status'' status_enum (b_status b) = [] \<Longrightarrow>
           updateProduct_try e i b s = Inl (x, s)"
  using assms
  by (simp_all add: listProducts_try_def getProduct_try_def deleteProduct_try_def
      createProduct_try_def updateProduct_try_def findByIdAndUpdate_def Let_def)

lemma exampleBody_valid:
  "validateProduct (updateProductStatus (new_Product e 0 exampleBody)) = []"
  "outside ''status'' status_enum (b_status exampleBody) = []"
  by (simp_all add: validate_updateProductStatus new_Product_def exampleBody_def missing_def
      outside_def)

lemma emptyBody_invalid:
  "createProduct_try e emptyBody databaseState
     = Inl (ValidationError [''name'', ''sku'', ''category'', ''unitPrice''], databaseState)"
  by (simp add: createProduct_try_def Let_def validate_updateProductStatus new_Product_def
      emptyBody_def missing_def databaseState_def)

theorem crud_errors_by_handler_witness:
  "listProducts_try (failingAt 0 (BackendError ''down'')) databaseState
       = Inl (BackendError ''down'', databaseState)
   \<and> listProducts (failingAt 0 (BackendError ''down'')) databaseState
       = ((500, ErrorBody ''Error fetching products'' (BackendError ''down'')), databaseState)
   \<and> getProduct_try (failingAt 0 (CastError ''_id'')) ''zz'' databaseState
       = Inl (CastError ''_id'', databaseState)
   \<and> getProduct (failingAt 0 (CastError ''_id'')) ''zz'' databaseState
       = ((500, ErrorBody ''Error fetching product'' (CastError ''_id'')), databaseState)
   \<and> createProduct_try exampleEnv emptyBody databaseState
       = Inl (ValidationError [''name'', ''sku'', ''category'', ''unitPrice''], databaseState)
   \<and> createProduct exampleEnv emptyBody databaseState
       = ((400, ErrorBody ''Error creating product''
            (ValidationError [''name'', ''sku'', ''category'', ''unitPrice''])), databaseState)
   \<and> updateProduct_try (failingAt 0 (BackendError ''down'')) ''1'' exampleBody databaseState
       = Inl (BackendError ''down'', databaseState)
   \<and> updateProduct (failingAt 0 (BackendError ''down'')) ''1'' exampleBody databaseState
       = ((400, ErrorBody ''Error updating product'' (BackendError ''down'')), databaseState)
   \<and> deleteProduct_try (failingAt 0 (CastError ''_id'')) ''zz'' databaseState
       = Inl (CastError ''_id'', databaseState)
   \<and> deleteProduct (failingAt 0 (CastError ''_id'')) ''zz'' databaseState
       = ((500, ErrorBody ''Error deleting product'' (CastError ''_id'')), databaseState)"
proof -
  let ?down = "failingAt 0 (BackendError ''down'')" and ?cast = "failingAt 0 (CastError ''_id'')"
  have l: "listProducts_try ?down databaseState = Inl (BackendError ''down'', databaseState)"
    and u: "updateProduct_try ?down ''1'' exampleBody databaseState
        = Inl (BackendError ''down'', databaseState)"
    by (simp_all add: database_throws example_run failingAt_fault exampleBody_valid)
  have g: "getProduct_try ?cast ''zz'' databaseState = Inl (CastError ''_id'', databaseState)"
    and d: "deleteProduct_try ?cast ''zz'' databaseState = Inl (CastError ''_id'', databaseState)"
    by (simp_all add: database_throws example_run failingAt_fault)
  note c = emptyBody_invalid [of exampleEnv]
  show ?thesis
    using crud_errors_by_handler [where e = "?down" and s = databaseState
        and x = "BackendError ''down''" and s' = databaseState and i = "''1''"
        and b = exampleBody]
      crud_errors_by_handler [where e = "?cast" and s = databaseState
        and x = "CastError ''_id''" and s' = databaseState and i = "''zz''"]
      crud_errors_by_handler [where e = exampleEnv and s = databaseState
        and x = "ValidationError [''name'', ''sku'', ''category'', ''unitPrice'']"
        and s' = databaseState and b = emptyBody]
      l u g d c
    by simp
qed

text \<open>
  A backend failure on create is not answered with 500, and an identifier that cannot be
  cast on delete is not answered with 400.
\<close>

theorem crud_errors_counterexample:
  "createProduct_try (failingAt 0 (BackendError ''down'')) exampleBody databaseState
       = Inl (BackendError ''down'', databaseState)
   \<and> fst (fst (createProduct (failingAt 0 (BackendError ''down'')) exampleBody databaseState)) \<noteq> 500
   \<and> deleteProduct_try (failingAt 0 (CastError ''_id'')) ''zz'' databaseState
       = Inl (CastError ''_id'', databaseState)
   \<and> fst (fst (deleteProduct (failingAt 0 (CastError ''_id'')) ''zz'' databaseState)) \<noteq> 400"
  by (simp add: database_throws example_run failingAt_fault exampleBody_valid
      createProduct_def deleteProduct_def catch_with_def)

section \<open>Analytics\<close>

lemma wholePriced_D:
  assumes "wholePriced p"
  obtains q u where "quantity p = number q" "unitPrice p = number u" "is_whole q" "is_whole u"
proof -
  from assms obtain q where q: "quantity p = number q"
    by (cases "quantity p") (auto simp: wholePriced_def split: double.splits)
  from assms q obtain u where u: "unitPrice p = number u"
    by (cases "unitPrice p") (auto simp: wholePriced_def split: double.splits)
  from assms q u have "is_whole q" "is_whole u" by (simp_all add: wholePriced_def)
  with q u that show ?thesis by blast
qed

lemma totalValue_step:
  assumes "wholePriced p" and "is_whole acc" and "\<bar>acc\<bar> + \<bar>stockValue p\<bar> \<le> 2 ^ 53"
  shows "js_add (number acc) (js_mul (quantity p) (unitPrice p)) = number (acc + stockValue p)"
    and "is_whole (acc + stockValue p)"
proof -
  from assms(1) obtain q u where qu: "quantity p = number q" "unitPrice p = number u"
    "is_whole q" "is_whole u" by (rule wholePriced_D)
  have v: "stockValue p = q * u" by (simp add: stockValue_def qu)
  have wv: "is_whole (q * u)" using qu(3,4) by (simp add: is_whole_iff)
  have "\<bar>q * u\<bar> \<le> 2 ^ 53" using assms(3) v by linarith
  then have mul: "js_mul (quantity p) (unitPrice p) = number (q * u)"
    using round_double_whole [OF wv] by (simp add: qu js_mul_def mul_double_def)
  show w: "is_whole (acc + stockValue p)"
    using assms(2) wv by (simp add: v is_whole_iff)
  have "\<bar>acc + q * u\<bar> \<le> 2 ^ 53" using assms(3) v by linarith
  then show "js_add (number acc) (js_mul (quantity p) (unitPrice p)) = number (acc + stockValue p)"
    using round_double_whole [of "acc + q * u"] w
    by (simp add: mul v js_add_def add_double_def)
qed

text \<open>The fold is exact while the total of the magnitudes stays within \<open>2 ^ 53\<close>.\<close>

lemma totalValue_exact:
  "list_all wholePriced ps \<Longrightarrow> is_whole acc \<Longrightarrow>
     \<bar>acc\<bar> + sum_list (map (\<lambda>p. \<bar>stockValue p\<bar>) ps) \<le> 2 ^ 53 \<Longrightarrow>
     foldl (\<lambda>sum p. js_add sum (js_mul (quantity p) (unitPrice p))) (number acc) ps
       = number (acc + sum_list (map stockValue ps))"
proof (induction ps arbitrary: acc)
  case Nil
  then show ?case by simp
next
  case (Cons p ps)
  have nonneg: "0 \<le> sum_list (map (\<lambda>p. \<bar>stockValue p\<bar>) ps)"
    by (rule sum_list_nonneg) auto
  have b: "\<bar>acc\<bar> + \<bar>stockValue p\<bar> \<le> 2 ^ 53"
    using Cons.prems(3) nonneg by simp
  have p: "wholePriced p" and ps: "list_all wholePriced ps" using Cons.prems(1) by simp_all
  note step = totalValue_step [OF p Cons.prems(2) b]
  have "\<bar>acc + stockValue p\<bar> + sum_list (map (\<lambda>p. \<bar>stockValue p\<bar>) ps) \<le> 2 ^ 53"
    using Cons.prems(3) by (simp add: abs_triangle_ineq [THEN order_trans] add.assoc) 
  from Cons.IH [OF ps step(2) this] show ?case
    by (simp add: step(1) add.assoc)
qed

lemma totalValue_NaN:
  "foldl (\<lambda>sum p. js_add sum (js_mul (quantity p) (unitPrice p))) None ps = None"
  by (induction ps) simp_all

lemma totalValue_not_priced:
  "\<not> list_all priced ps \<Longrightarrow>
     foldl (\<lambda>sum p. js_add sum (js_mul (quantity p) (unitPrice p))) acc ps = None"
proof (induction ps arbitrary: acc)
  case Nil
  then show ?case by simp
next
  case (Cons p ps)
  show ?case
  proof (cases "priced p")
    case True
    then have "\<not> list_all priced ps" using Cons.prems by simp
    then show ?thesis using Cons.IH by simp
  next
    case False
    then have "js_mul (quantity p) (unitPrice p) = None"
      by (auto simp: priced_def)
    then have "js_add acc (js_mul (quantity p) (unitPrice p)) = None"
      by (simp add: js_add_def split: option.splits)
    then show ?thesis by (simp add: totalValue_NaN)
  qed
qed

text \<open>
  C7 (as amended). For every product list, when the read of the products does not throw,
  the analytics response has \<^verbatim>\<open>totalProducts\<close> equal to the number of stored products,
  and \<^verbatim>\<open>totalValue\<close> is the JavaScript sum, taken from \<open>0\<close> in the order of the list, of
  the JavaScript products of quantity and unit price, each operation rounding to the
  nearest double. It is the exact sum of quantity times unit price when every quantity
  and unit price is an integer and the magnitudes of the values add up to at most
  \<open>2 ^ 53\<close>, and it is not a number when a factor of some product is not.
\<close>

theorem analytics_totals:
  assumes "useInMemory s \<or> fault e 0 = None"
  shows "\<exists>a. getAnalytics e s = ((200, AnalyticsBody a), s)
           \<and> totalProducts a = length (products s)
           \<and> totalValue a =
               foldl (\<lambda>sum p. js_add sum (js_mul (quantity p) (unitPrice p))) (number 0)
                 (products s)
           \<and> (list_all wholePriced (products s)
                \<and> sum_list (map (\<lambda>p. \<bar>stockValue p\<bar>) (products s)) \<le> 2 ^ 53 \<longrightarrow>
              totalValue a = number (sum_list (map stockValue (products s))))
           \<and> (\<not> list_all priced (products s) \<longrightarrow> totalValue a = None)"
proof -
  let ?a = "computeAnalytics (products s)"
  have "getAnalytics e s = ((200, AnalyticsBody ?a), s)"
    using assms
    by (auto simp: getAnalytics_def getAnalytics_try_def catch_with_def products_def)
  moreover have "totalProducts ?a = length (products s)"
    by (simp add: computeAnalytics_def)
  moreover have t: "totalValue ?a =
      foldl (\<lambda>sum p. js_add sum (js_mul (quantity p) (unitPrice p))) (number 0) (products s)"
    by (simp add: computeAnalytics_def)
  moreover have "totalValue ?a = number (sum_list (map stockValue (products s)))"
    if "list_all wholePriced (products s)"
      and "sum_list (map (\<lambda>p. \<bar>stockValue p\<bar>) (products s)) \<le> 2 ^ 53"
    using totalValue_exact [OF that(1), of 0] that(2) by (simp add: t)
  moreover have "totalValue ?a = None" if "\<not> list_all priced (products s)"
    using totalValue_not_priced [OF that] by (simp add: t)
  ultimately show ?thesis by blast
qed

text \<open>Two products worth 6000 and 1350, and one without a quantity.\<close>

theorem analytics_totals_witness:
  "\<not> useInMemory twoProducts \<and> fault exampleEnv 0 = None
   \<and> list_all wholePriced (products twoProducts)
   \<and> sum_list (map (\<lambda>p. \<bar>stockValue p\<bar>) (products twoProducts)) \<le> 2 ^ 53
   \<and> (\<exists>a. getAnalytics exampleEnv twoProducts = ((200, AnalyticsBody a), twoProducts)
         \<and> totalProducts a = 2 \<and> totalValue a = number 7350)
   \<and> useInMemory bareMemory \<and> \<not> list_all priced (products bareMemory)
   \<and> (\<exists>a. getAnalytics exampleEnv bareMemory = ((200, AnalyticsBody a), bareMemory)
         \<and> totalProducts a = 1 \<and> totalValue a = None)"
proof -
  have run: "useInMemory twoProducts \<or> fault exampleEnv 0 = None"
    and bare: "useInMemory bareMemory \<or> fault exampleEnv 0 = None"
    by (simp_all add: example_run)
  have ps: "products twoProducts =
      [exampleProduct, exampleProduct\<lparr>pid := ''2'', quantity := number 3, unitPrice := number 450\<rparr>]"
    by (simp add: products_def twoProducts_def databaseState_def)
  have w: "list_all wholePriced (products twoProducts)"
    and v: "sum_list (map stockValue (products twoProducts)) = 7350"
    and b: "sum_list (map (\<lambda>p. \<bar>stockValue p\<bar>) (products twoProducts)) \<le> 2 ^ 53"
    and l: "length (products twoProducts) = 2"
    by (simp_all add: ps wholePriced_def stockValue_def exampleProduct_def)
  have np: "\<not> list_all priced (products bareMemory)"
    and lb: "length (products bareMemory) = 1"
    using bareMemory_products(4) by (auto simp: list_all_iff priced_def)
  have m: "\<not> useInMemory twoProducts"
    by (simp add: twoProducts_def databaseState_def)
  show ?thesis
    using analytics_totals [OF run] analytics_totals [OF bare] w v b l np lb m
    by (auto simp: example_run bareMemory_products)
qed

text \<open>Two products worth \<open>2 ^ 53\<close> and \<open>1\<close> have the total value \<open>2 ^ 53\<close>.\<close>

theorem analytics_totals_counterexample:
  "getAnalytics exampleEnv roundedProducts
     = ((200, AnalyticsBody (computeAnalytics (products roundedProducts))), roundedProducts)
   \<and> map stockValue (products roundedProducts) = [2 ^ 53, 1]
   \<and> totalValue (computeAnalytics (products roundedProducts)) = number (2 ^ 53)
   \<and> (2 ^ 53 :: rat) \<noteq> sum_list [2 ^ 53, 1]"
proof -
  have ps: "products roundedProducts =
      [exampleProduct\<lparr>quantity := number (2 ^ 53), unitPrice := number 1\<rparr>,
       exampleProduct\<lparr>pid := ''2'', quantity := number 1, unitPrice := number 1\<rparr>]"
    by (simp add: products_def roundedProducts_def databaseState_def)
  have a: "js_mul (number (2 ^ 53)) (number 1) = number (2 ^ 53)"
    using js_mul_whole [of "2 ^ 53" 1] by simp
  have b: "js_add (number 0) (number (2 ^ 53)) = number (2 ^ 53)"
    using js_add_whole [of 0 "2 ^ 53"] by simp
  have c: "js_mul (number 1) (number 1) = number 1"
    using js_mul_whole [of 1 1] by simp
  have "totalValue (computeAnalytics (products roundedProducts)) = number (2 ^ 53)"
    using a b c js_add_beyond by (simp add: ps computeAnalytics_def)
  moreover have "getAnalytics exampleEnv roundedProducts
      = ((200, AnalyticsBody (computeAnalytics (products roundedProducts))), roundedProducts)"
    by (simp add: getAnalytics_def getAnalytics_try_def catch_with_def products_def
        roundedProducts_def databaseState_def exampleEnv_def)
  moreover have "map stockValue (products roundedProducts) = [2 ^ 53, 1]"
    by (simp add: ps stockValue_def)
  ultimately show ?thesis by simp
qed

section \<open>Seeding\<close>

lemma statusDerived_iff:
  "statusDerived p = (status p = status (updateProductStatus p))"
  unfolding statusDerived_def
  by (metis updateProductStatus_eq product.surjective product.update_convs(11))

lemma seedObject_catalogued:
  "map (catalogued \<circ> seedObject e) (enumerate 0 sampleProducts) = demoCatalog"
  by (simp add: sampleProducts_def sample_def seedObject_def catalogued_def demoCatalog_def
      js_le_def le_double_def)

lemma seedDocument_catalogued:
  "map (catalogued \<circ> seedDocument e) (enumerate 0 sampleProducts) = demoCatalog"
  by (simp add: sampleProducts_def sample_def seedDocument_def catalogued_def demoCatalog_def
      new_Product_def status_updateProductStatus js_le_def le_double_def)

lemma seedObject_derived:
  "list_all statusDerived (map (seedObject e) (enumerate 0 sampleProducts))"
  by (simp add: sampleProducts_def sample_def seedObject_def statusDerived_iff
      status_updateProductStatus js_le_def le_double_def)

lemma seedDocument_derived:
  "list_all statusDerived (map (seedDocument e) (enumerate 0 sampleProducts))"
  by (simp add: sampleProducts_def sample_def seedDocument_def statusDerived_iff
      status_updateProductStatus new_Product_def js_le_def le_double_def)

lemma seedDocument_valid:
  "concat (map validateProduct (map (seedDocument e) (enumerate 0 sampleProducts))) = []"
  by (simp add: sampleProducts_def sample_def seedDocument_def validate_updateProductStatus
      new_Product_def missing_def)

lemma seed_products:
  assumes "useInMemory s \<or> (fault e 0 = None \<and> fault e 1 = None)"
  shows "seed e s =
    ((200, SeedBody ''Sample data created successfully'' 7),
     if useInMemory s
     then s\<lparr>inMemoryProducts := map (seedObject e) (enumerate 0 sampleProducts),
            productIdCounter := 8\<rparr>
     else s\<lparr>dbProducts := map (seedDocument e) (enumerate 0 sampleProducts)\<rparr>)"
proof -
  have n: "length sampleProducts = 7" by (simp add: sampleProducts_def)
  show ?thesis
    using assms seedDocument_valid [of e]
    by (auto simp: seed_def seed_try_def catch_with_def Let_def n)
qed

text \<open>
  C8. From every state, in the persistent mode when the two database calls do not throw,
  seeding answers with count 7 and leaves exactly the 7 products of the demo catalog
  stored, whatever was stored before, each with the status its quantity and reorder point
  derive.
\<close>

theorem seed_replaces_catalog:
  assumes "useInMemory s \<or> (fault e 0 = None \<and> fault e 1 = None)"
  shows "fst (seed e s) = (200, SeedBody ''Sample data created successfully'' 7)
    \<and> length (products (snd (seed e s))) = 7
    \<and> map catalogued (products (snd (seed e s))) = demoCatalog
    \<and> list_all statusDerived (products (snd (seed e s)))"
proof (cases "useInMemory s")
  case True
  then have "products (snd (seed e s)) = map (seedObject e) (enumerate 0 sampleProducts)"
    by (simp add: seed_products [OF assms] products_def)
  moreover have "length sampleProducts = 7" by (simp add: sampleProducts_def)
  ultimately show ?thesis
    using seedObject_catalogued [of e] seedObject_derived [of e]
    by (simp add: seed_products [OF assms])
next
  case False
  then have "products (snd (seed e s)) = map (seedDocument e) (enumerate 0 sampleProducts)"
    by (simp add: seed_products [OF assms] products_def)
  moreover have "length sampleProducts = 7" by (simp add: sampleProducts_def)
  ultimately show ?thesis
    using seedDocument_catalogued [of e] seedDocument_derived [of e]
    by (simp add: seed_products [OF assms])
qed

theorem seed_replaces_catalog_witness:
  "\<not> useInMemory databaseState \<and> fault exampleEnv 0 = None \<and> fault exampleEnv 1 = None
   \<and> length (products databaseState) = 1
   \<and> fst (seed exampleEnv databaseState) = (200, SeedBody ''Sample data created successfully'' 7)
   \<and> length (products (snd (seed exampleEnv databaseState))) = 7
   \<and> map catalogued (products (snd (seed exampleEnv databaseState))) = demoCatalog
   \<and> list_all statusDerived (products (snd (seed exampleEnv databaseState)))
   \<and> useInMemory memoryState
   \<and> length (products (snd (seed exampleEnv memoryState))) = 7
   \<and> map catalogued (products (snd (seed exampleEnv memoryState))) = demoCatalog"
proof -
  have d: "useInMemory databaseState \<or> (fault exampleEnv 0 = None \<and> fault exampleEnv 1 = None)"
    and m: "useInMemory memoryState \<or> (fault exampleEnv 0 = None \<and> fault exampleEnv 1 = None)"
    by (simp_all add: example_run)
  have "length (products databaseState) = 1"
    by (simp add: products_def databaseState_def)
  then show ?thesis
    using seed_replaces_catalog [OF d] seed_replaces_catalog [OF m]
    by (simp add: example_run)
qed

section \<open>Deleting a product\<close>

text \<open>
  C9. Deleting a product leaves the stored transactions of both stores as they were,
  whether or not the deletion succeeds; when the product is stored and the database call
  does not throw, it is removed and the response is the success message.
\<close>

theorem delete_keeps_transactions:
  "inMemoryTransactions (snd (deleteProduct e i s)) = inMemoryTransactions s
   \<and> dbTransactions (snd (deleteProduct e i s)) = dbTransactions s
   \<and> transactions (snd (deleteProduct e i s)) = transactions s
   \<and> (findProduct s i \<noteq> None \<and> (useInMemory s \<or> fault e 0 = None) \<longrightarrow>
        fst (deleteProduct e i s) = (200, MessageBody ''Product deleted successfully'')
        \<and> length (products (snd (deleteProduct e i s))) + 1 = length (products s))"
proof -
  have frame: "inMemoryTransactions (snd (deleteProduct e i s)) = inMemoryTransactions s
      \<and> dbTransactions (snd (deleteProduct e i s)) = dbTransactions s
      \<and> useInMemory (snd (deleteProduct e i s)) = useInMemory s"
    by (simp add: deleteProduct_def deleteProduct_try_def catch_with_def notFound_def
        split: option.splits)
  have "fst (deleteProduct e i s) = (200, MessageBody ''Product deleted successfully'')
        \<and> length (products (snd (deleteProduct e i s))) + 1 = length (products s)"
    if found: "findProduct s i \<noteq> None" and run: "useInMemory s \<or> fault e 0 = None"
  proof -
    obtain k where k: "findIndex (\<lambda>p. pid p = i) (products s) = Some k"
      using found findProduct_index by fastforce
    then have "k < length (products s)" using findIndex_SomeD by fastforce
    then show ?thesis
      using k run splice1_length [of k "products s"]
      by (auto simp: deleteProduct_def deleteProduct_try_def catch_with_def products_def)
  qed
  with frame show ?thesis by (simp add: transactions_def)
qed

text \<open>Two transactions refer to the one product; it is deleted and they stay.\<close>

theorem delete_keeps_transactions_witness:
  "findProduct referencedState ''1'' \<noteq> None \<and> \<not> useInMemory referencedState
   \<and> fault exampleEnv 0 = None
   \<and> map t_productId (transactions referencedState) = [Some ''1'', Some ''1'']
   \<and> fst (deleteProduct exampleEnv ''1'' referencedState)
        = (200, MessageBody ''Product deleted successfully'')
   \<and> length (products (snd (deleteProduct exampleEnv ''1'' referencedState))) = 0
   \<and> transactions (snd (deleteProduct exampleEnv ''1'' referencedState))
        = transactions referencedState"
proof -
  have f: "findProduct referencedState ''1'' \<noteq> None"
    and m: "\<not> useInMemory referencedState"
    and n: "length (products referencedState) = 1"
    and t: "map t_productId (transactions referencedState) = [Some ''1'', Some ''1'']"
    by (simp_all add: findProduct_def products_def transactions_def referencedState_def
        databaseState_def exampleProduct_def exampleTransaction_def)
  show ?thesis
    using delete_keeps_transactions [of exampleEnv "''1''" referencedState]
    by (simp add: f m n t example_run)
qed

section \<open>The status of stored products\<close>

lemma statusDerived_updateProductStatus [simp]: "statusDerived (updateProductStatus p)"
  by (simp add: statusDerived_iff status_updateProductStatus)

lemma statusDerived_updatedAt [simp]:
  "statusDerived (p\<lparr>updatedAt := u\<rparr>) = statusDerived p"
  by (simp add: statusDerived_iff status_updateProductStatus)

lemma statusDerived_applyMovement [simp]: "statusDerived (applyMovement e b p)"
  by (simp add: applyMovement_def Let_def)

lemma statusDerived_status:
  "statusDerived p \<Longrightarrow>
     status p = Some ''In Stock'' \<or> status p = Some ''Low Stock'' \<or> status p = Some ''Out of Stock''"
  by (auto simp: statusDerived_iff status_updateProductStatus)

lemma save_at_Inr:
  "save_at e k i p s = Inr (p', s') \<Longrightarrow>
     (p' = p \<or> p' = p\<lparr>updatedAt := now e\<rparr>) \<and> s' = s\<lparr>dbProducts := (dbProducts s)[i := p']\<rparr>"
  by (auto simp: save_at_def Let_def split: if_splits option.splits)

lemma save_at_Inl: "save_at e k i p s = Inl (x, s') \<Longrightarrow> s' = s"
  by (auto simp: save_at_def Let_def split: if_splits option.splits)

lemma save_at_derived:
  assumes "save_at e k i p s = Inr (p', s')" and "statusDerived p"
    and "list_all statusDerived ((dbProducts s)[i := p])"
    and "list_all statusDerived (inMemoryProducts s)"
  shows "allDerived s'"
proof -
  from save_at_Inr [OF assms(1)]
  have p': "p' = p \<or> p' = p\<lparr>updatedAt := now e\<rparr>"
    and s': "s' = s\<lparr>dbProducts := (dbProducts s)[i := p']\<rparr>" by simp_all
  have "statusDerived p'" using p' assms(2) by auto
  moreover have "list_all statusDerived ((dbProducts s)[i := p'])"
    using list_all_update [OF assms(3) \<open>statusDerived p'\<close>, of i] by simp
  ultimately show ?thesis using s' assms(4) by (simp add: allDerived_def)
qed

lemma readers_keep_state:
  "snd (getHealth s) = s" "snd (listProducts e s) = s" "snd (getProduct e i s) = s"
  "snd (listTransactions e s) = s" "snd (getAnalytics e s) = s"
  by (simp_all add: getHealth_def listProducts_def listProducts_try_def getProduct_def
      getProduct_try_def listTransactions_def listTransactions_try_def getAnalytics_def
      getAnalytics_try_def catch_with_def notFound_def split: option.splits)

lemma createProduct_derived:
  "allDerived s \<Longrightarrow> allDerived (snd (createProduct e b s))"
  by (simp add: createProduct_def createProduct_try_def catch_with_def Let_def allDerived_def
      split: option.splits)

lemma deleteProduct_derived:
  "allDerived s \<Longrightarrow> allDerived (snd (deleteProduct e i s))"
  by (simp add: deleteProduct_def deleteProduct_try_def catch_with_def notFound_def
      allDerived_def list_all_splice1 split: option.splits)

lemma seed_derived:
  "allDerived s \<Longrightarrow> allDerived (snd (seed e s))"
  using seedObject_derived [of e] seedDocument_derived [of e]
  by (simp add: seed_def seed_try_def catch_with_def Let_def allDerived_def
      split: option.splits)

lemma createTransaction_derived:
  assumes "allDerived s"
  shows "allDerived (snd (createTransaction e b s))"
proof (cases "useInMemory s")
  case True
  then show ?thesis
    using assms
    by (simp add: createTransaction_def createTransaction_try_def catch_with_def Let_def
        notFound_def allDerived_def list_all_update split: option.splits)
next
  case False
  show ?thesis
  proof (cases "fault e 0")
    case (Some x)
    then show ?thesis
      using False assms by (simp add: createTransaction_def createTransaction_try_def catch_with_def)
  next
    case None
    show ?thesis
    proof (cases "indexOfId (r_productId b) (dbProducts s)")
      case n: None
      then show ?thesis
        using False None assms
        by (simp add: createTransaction_def createTransaction_try_def catch_with_def notFound_def)
    next
      case (Some k)
      let ?m = "applyMovement e b (dbProducts s ! k)"
      show ?thesis
      proof (cases "save_at e 1 k ?m s")
        case (Inl err)
        then obtain x s' where err: "err = (x, s')" by (cases err)
        with Inl have "s' = s" using save_at_Inl by blast
        then show ?thesis
          using False None Some Inl err assms
          by (simp add: createTransaction_def createTransaction_try_def catch_with_def)
      next
        case (Inr ok)
        then obtain p' s1 where ok: "ok = (p', s1)" by (cases ok)
        have "allDerived s1"
        proof (rule save_at_derived)
          show "save_at e 1 k ?m s = Inr (p', s1)" using Inr ok by simp
          show "statusDerived ?m" by simp
          show "list_all statusDerived ((dbProducts s)[k := ?m])"
            using assms by (simp add: allDerived_def list_all_update)
          show "list_all statusDerived (inMemoryProducts s)"
            using assms by (simp add: allDerived_def)
        qed
        then show ?thesis
          using False None Some Inr ok
          by (simp add: createTransaction_def createTransaction_try_def catch_with_def Let_def
              allDerived_def split: option.splits)
      qed
    qed
  qed
qed

lemma updateProduct_derived:
  assumes "allDerived s"
    and "useInMemory s \<or> fst (fst (updateProduct e i b s)) \<noteq> 400
      \<or> snd (updateProduct e i b s) = s"
  shows "allDerived (snd (updateProduct e i b s))"
proof (cases "useInMemory s")
  case True
  then show ?thesis
    using assms(1)
    by (simp add: updateProduct_def updateProduct_try_def findByIdAndUpdate_def catch_with_def Let_def
        notFound_def allDerived_def list_all_update split: option.splits)
next
  case False
  show ?thesis
  proof (cases "updateProduct_try e i b s")
    case (Inl err)
    then have "fst (fst (updateProduct e i b s)) = 400"
      by (simp add: updateProduct_def catch_with_def split: prod.splits)
    with assms False show ?thesis by auto
  next
    case (Inr ok)
    show ?thesis
    proof (cases "findIndex (\<lambda>p. pid p = i) (dbProducts s)")
      case None
      then have "snd (updateProduct e i b s) = s"
        using False
        by (simp add: updateProduct_def updateProduct_try_def findByIdAndUpdate_def catch_with_def notFound_def
            split: option.splits)
      then show ?thesis using assms(1) by simp
    next
      case (Some k)
      let ?w = "(spread True (dbProducts s ! k) b)\<lparr>updatedAt := now e\<rparr>"
      let ?s1 = "s\<lparr>dbProducts := (dbProducts s)[k := ?w]\<rparr>"
      from Inr False Some obtain p' s2
        where sv: "save_at e 1 k (updateProductStatus ?w) ?s1 = Inr (p', s2)"
          and res: "snd (updateProduct e i b s) = s2"
        by (auto simp: updateProduct_def updateProduct_try_def findByIdAndUpdate_def catch_with_def Let_def
            split: if_splits option.splits sum.splits)
      have "allDerived s2"
      proof (rule save_at_derived [OF sv])
        show "statusDerived (updateProductStatus ?w)" by simp
        show "list_all statusDerived ((dbProducts ?s1)[k := updateProductStatus ?w])"
          using assms(1) by (simp add: allDerived_def list_all_update)
        show "list_all statusDerived (inMemoryProducts ?s1)"
          using assms(1) by (simp add: allDerived_def)
      qed
      with res show ?thesis by simp
    qed
  qed
qed

lemma handle_derived:
  assumes "allDerived s"
    and "useInMemory s \<or> \<not> isUpdate req \<or> fst (fst (handle e req s)) \<noteq> 400
      \<or> snd (handle e req s) = s"
  shows "allDerived (snd (handle e req s))"
proof (cases req)
  case (UpdateProduct i b)
  then show ?thesis
    using assms updateProduct_derived [of s e i b] by (simp add: isUpdate_def)
qed (use assms(1) in \<open>simp_all add: readers_keep_state createProduct_derived
      deleteProduct_derived createTransaction_derived seed_derived\<close>)

text \<open>
  Every request, but an update in the persistent mode that is answered with 400 after it
  changed the store, takes a state in which the status of every stored product is the one
  derived from its quantity and reorder point to such a state, where every stored status
  is one of In Stock, Low Stock and Out of Stock.
\<close>

lemma other_writes_keep_status_derived:
  assumes "allDerived s"
    and "useInMemory s \<or> \<not> isUpdate req \<or> fst (fst (handle e req s)) \<noteq> 400
      \<or> snd (handle e req s) = s"
  shows "allDerived (snd (handle e req s))
    \<and> list_all (\<lambda>p. status p = Some ''In Stock'' \<or> status p = Some ''Low Stock''
          \<or> status p = Some ''Out of Stock'') (products (snd (handle e req s)))"
proof -
  have all: "allDerived (snd (handle e req s))"
    using assms by (rule handle_derived)
  then have "list_all statusDerived (products (snd (handle e req s)))"
    by (simp add: allDerived_def products_def)
  then have "list_all (\<lambda>p. status p = Some ''In Stock'' \<or> status p = Some ''Low Stock''
      \<or> status p = Some ''Out of Stock'') (products (snd (handle e req s)))"
    by (auto simp: list_all_iff dest: statusDerived_status)
  with all show ?thesis by simp
qed

lemma example_derived: "allDerived databaseState" "allDerived memoryState"
  by (simp_all add: allDerived_def databaseState_def memoryState_def statusDerived_iff
      status_updateProductStatus exampleProduct_def js_le_def le_double_def)

lemma damaged_created:
  "handle exampleEnv (CreateProduct damagedBody) databaseState =
     ((201, ProductBody (updateProductStatus (new_Product exampleEnv 0 damagedBody))),
      databaseState\<lparr>dbProducts :=
        [exampleProduct, updateProductStatus (new_Product exampleEnv 0 damagedBody)]\<rparr>)"
  by (simp add: createProduct_def createProduct_try_def catch_with_def Let_def
      validate_updateProductStatus new_Product_def damagedBody_def exampleBody_def missing_def
      example_run databaseState_def)

lemma damaged_updated:
  "handle exampleEnv (UpdateProduct ''1'' damagedBody) memoryState =
     ((200, ProductBody (updateProductStatus
              ((spread False exampleProduct damagedBody)\<lparr>updatedAt := 1000\<rparr>))),
      memoryState\<lparr>inMemoryProducts :=
        [updateProductStatus ((spread False exampleProduct damagedBody)\<lparr>updatedAt := 1000\<rparr>)]\<rparr>)"
  by (simp add: updateProduct_def updateProduct_try_def findByIdAndUpdate_def catch_with_def Let_def
      memoryState_def exampleProduct_def exampleEnv_def)

text \<open>
  A payload with status Damaged, created in the database and merged in memory: both
  paths derive the status before they store, and what is stored is Low Stock.
\<close>

lemma payload_status_overwritten:
  "allDerived databaseState \<and> \<not> isUpdate (CreateProduct damagedBody)
   \<and> b_status damagedBody = Some ''Damaged''
   \<and> fst (fst (handle exampleEnv (CreateProduct damagedBody) databaseState)) = 201
   \<and> allDerived (snd (handle exampleEnv (CreateProduct damagedBody) databaseState))
   \<and> map status (products (snd (handle exampleEnv (CreateProduct damagedBody) databaseState)))
        = [Some ''Low Stock'', Some ''Low Stock'']
   \<and> allDerived memoryState \<and> useInMemory memoryState
   \<and> fst (fst (handle exampleEnv (UpdateProduct ''1'' damagedBody) memoryState)) = 200
   \<and> allDerived (snd (handle exampleEnv (UpdateProduct ''1'' damagedBody) memoryState))
   \<and> map status (products (snd (handle exampleEnv (UpdateProduct ''1'' damagedBody) memoryState)))
        = [Some ''Low Stock'']"
proof -
  have c: "useInMemory databaseState \<or> \<not> isUpdate (CreateProduct damagedBody)
      \<or> fst (fst (handle exampleEnv (CreateProduct damagedBody) databaseState)) \<noteq> 400
      \<or> snd (handle exampleEnv (CreateProduct damagedBody) databaseState) = databaseState"
    by (simp add: isUpdate_def)
  have u: "useInMemory memoryState \<or> \<not> isUpdate (UpdateProduct ''1'' damagedBody)
      \<or> fst (fst (handle exampleEnv (UpdateProduct ''1'' damagedBody) memoryState)) \<noteq> 400
      \<or> snd (handle exampleEnv (UpdateProduct ''1'' damagedBody) memoryState) = memoryState"
    by (simp add: example_run)
  have "map status (products (snd (handle exampleEnv (CreateProduct damagedBody) databaseState)))
      = [Some ''Low Stock'', Some ''Low Stock'']"
    unfolding damaged_created
    by (simp add: products_def databaseState_def exampleProduct_def status_updateProductStatus
        new_Product_def damagedBody_def exampleBody_def js_le_def le_double_def)
  moreover have "map status (products (snd (handle exampleEnv (UpdateProduct ''1'' damagedBody) memoryState)))
      = [Some ''Low Stock'']"
    unfolding damaged_updated
    by (simp add: products_def memoryState_def exampleProduct_def status_updateProductStatus
        spread_def damagedBody_def exampleBody_def js_le_def le_double_def)
  moreover have "fst (fst (handle exampleEnv (CreateProduct damagedBody) databaseState)) = 201"
    and "fst (fst (handle exampleEnv (UpdateProduct ''1'' damagedBody) memoryState)) = 200"
    unfolding damaged_created damaged_updated by simp_all
  moreover have "b_status damagedBody = Some ''Damaged''"
    by (simp add: damagedBody_def)
  ultimately show ?thesis
    using other_writes_keep_status_derived [OF example_derived(1) c]
      other_writes_keep_status_derived [OF example_derived(2) u]
    by (simp add: example_derived example_run isUpdate_def)
qed

text \<open>
  C10. Every write operation is to leave the status of the stored product equal to the
  one derived from its quantity and reorder point, a status of the payload being
  overwritten before the record is stored. The persistent branch of the update does not:
  \<^verbatim>\<open>findByIdAndUpdate\<close> stores the payload, and the status is derived only for the
  \<^verbatim>\<open>save\<close> that follows. With the payload status Damaged on the stored example product,
  Damaged is stored after the first call, and when the \<^verbatim>\<open>save\<close> throws the request is
  answered with 400 and Damaged stays stored.
\<close>

theorem update_stores_payload_status:
  "allDerived databaseState
   \<and> findByIdAndUpdate exampleEnv ''1'' damagedBody databaseState
       = Inr (Some (0, (spread True exampleProduct damagedBody)\<lparr>updatedAt := 1000\<rparr>),
              databaseState\<lparr>dbProducts :=
                [(spread True exampleProduct damagedBody)\<lparr>updatedAt := 1000\<rparr>]\<rparr>)
   \<and> status ((spread True exampleProduct damagedBody)\<lparr>updatedAt := 1000\<rparr>) = Some ''Damaged''
   \<and> fst (fst (handle (failingAt 1 (BackendError ''down'')) (UpdateProduct ''1'' damagedBody)
        databaseState)) = 400
   \<and> map status (products (snd (handle (failingAt 1 (BackendError ''down''))
        (UpdateProduct ''1'' damagedBody) databaseState))) = [Some ''Damaged'']
   \<and> \<not> allDerived (snd (handle (failingAt 1 (BackendError ''down''))
        (UpdateProduct ''1'' damagedBody) databaseState))"
proof -
  let ?e = "failingAt 1 (BackendError ''down'')"
  let ?w = "(spread True exampleProduct damagedBody)\<lparr>updatedAt := 1000\<rparr>"
  have w: "status ?w = Some ''Damaged''" "quantity ?w = number 5" "reorderPoint ?w = number 10"
    by (simp_all add: spread_def damagedBody_def exampleBody_def)
  have v: "validateProduct (updateProductStatus ?w) = []"
    by (simp add: validate_updateProductStatus spread_def damagedBody_def exampleBody_def
        missing_def)
  have f: "findByIdAndUpdate exampleEnv ''1'' damagedBody databaseState
      = Inr (Some (0, ?w), databaseState\<lparr>dbProducts := [?w]\<rparr>)"
    by (simp add: findByIdAndUpdate_def Let_def exampleEnv_def outside_def status_enum_def
        damagedBody_def databaseState_def exampleProduct_def)
  have h: "handle ?e (UpdateProduct ''1'' damagedBody) databaseState =
      ((400, ErrorBody ''Error updating product'' (BackendError ''down'')),
       databaseState\<lparr>dbProducts := [?w]\<rparr>)"
    using v
    by (simp add: updateProduct_def updateProduct_try_def findByIdAndUpdate_def catch_with_def
        Let_def save_at_def failingAt_def exampleEnv_def outside_def status_enum_def
        damagedBody_def databaseState_def exampleProduct_def)
  have n: "\<not> statusDerived ?w"
    by (simp add: statusDerived_iff status_updateProductStatus w js_le_def le_double_def)
  have "products (databaseState\<lparr>dbProducts := [?w]\<rparr>) = [?w]"
    by (simp add: products_def databaseState_def)
  moreover have "\<not> allDerived (databaseState\<lparr>dbProducts := [?w]\<rparr>)"
    using n by (simp add: allDerived_def)
  ultimately show ?thesis
    unfolding h f using w(1) example_derived(1) by simp
qed

end
